theory Spec2Isabelle
  imports Main
begin

section \<open>Style mappings of py4cytoscape (\<^verbatim>\<open>style_mappings.py\<close>)\<close>

text \<open>
  The module builds the "visual property mapping" document that CyREST expects and applies
  it to a named style. Everything it learns from and sends to Cytoscape goes through
  functions of other modules (\<^verbatim>\<open>networks\<close>, \<^verbatim>\<open>styles\<close>, \<^verbatim>\<open>commands\<close>,
  \<^verbatim>\<open>style_defaults\<close>, \<^verbatim>\<open>py4cytoscape_utils\<close>). Those collaborators are parameters of
  the model: a record of functions over an abstract state of the remote application. A
  Python exception is a value \<open>Inl e\<close>; every call to a collaborator is recorded, in
  order, so that a theorem can say which requests a function has issued.

  A string holds a Python \<^verbatim>\<open>str\<close> whose code points are below 256, one character per
  code point. Python's \<^verbatim>\<open>time.sleep\<close> and the diagnostics written to
  \<^verbatim>\<open>sys.stderr\<close> do not change any value and are left out; the \<^verbatim>\<open>@cy_log\<close>
  decorator passes arguments, results and exceptions through.
\<close>

subsection \<open>Errors and Python indexing\<close>

datatype error =
    CyError string
  | RequestException string
  | TypeError
  | IndexError

text \<open>\<^verbatim>\<open>xs[i]\<close>: a negative index counts from the end; out of range is an IndexError.\<close>

definition py_index :: "'a list \<Rightarrow> int \<Rightarrow> nat option" where
  "py_index xs i =
     (if 0 \<le> i \<and> i < int (length xs) then Some (nat i)
      else if i < 0 \<and> - i \<le> int (length xs) then Some (nat (int (length xs) + i))
      else None)"

definition getitem :: "'a list \<Rightarrow> int \<Rightarrow> error + 'a" where
  "getitem xs i = (case py_index xs i of None \<Rightarrow> Inl IndexError | Some j \<Rightarrow> Inr (xs ! j))"

subsection \<open>Strings: \<^verbatim>\<open>str(int)\<close>, \<^verbatim>\<open>upper\<close>, \<^verbatim>\<open>lower\<close>, \<^verbatim>\<open>re.sub('\\s+', '_', s)\<close>\<close>

definition digit_char :: "nat \<Rightarrow> char" where
  "digit_char d = char_of (48 + d)"

function str_nat :: "nat \<Rightarrow> string" where
  "str_nat n = (if n < 10 then [digit_char n] else str_nat (n div 10) @ [digit_char (n mod 10)])"
  by pat_completeness auto
termination
  by (relation "measure (\<lambda>n. n)") auto

declare str_nat.simps [simp del]

definition str_int :: "int \<Rightarrow> string" where
  "str_int i = (if i < 0 then CHR ''-'' # str_nat (nat (- i)) else str_nat (nat i))"

text \<open>
  \<^verbatim>\<open>str.upper()\<close> on one character. Below 256 the lower-case letters are \<open>a\<close> to
  \<open>z\<close> and the code points 224 to 254 without the division sign 247; the sharp s (223)
  becomes \<open>SS\<close>, hence a string. The micro sign (181) and the y with diaeresis (255) have
  their upper case above 255, which a character cannot hold: \<open>upper_representable\<close>
  excludes them, and the model leaves them as they are.
\<close>

definition upper_char :: "char \<Rightarrow> string" where
  "upper_char c =
     (let n = (of_char c :: nat)
      in if (97 \<le> n \<and> n \<le> 122) \<or> (224 \<le> n \<and> n \<le> 254 \<and> n \<noteq> 247)
         then [char_of (n - 32)]
         else if n = 223 then ''SS'' else [c])"

definition upper_representable :: "string \<Rightarrow> bool" where
  "upper_representable s = (CHR 0xB5 \<notin> set s \<and> CHR 0xFF \<notin> set s)"

text \<open>
  \<^verbatim>\<open>str.lower()\<close> on one character: below 256 the upper-case letters are \<open>A\<close> to
  \<open>Z\<close> and the code points 192 to 222 without the multiplication sign 215.
\<close>

definition lower_char :: "char \<Rightarrow> char" where
  "lower_char c =
     (let n = (of_char c :: nat)
      in if (65 \<le> n \<and> n \<le> 90) \<or> (192 \<le> n \<and> n \<le> 222 \<and> n \<noteq> 215)
         then char_of (n + 32) else c)"

definition upper :: "string \<Rightarrow> string" where
  "upper s = concat (map upper_char s)"

definition lower :: "string \<Rightarrow> string" where
  "lower s = map lower_char s"

text \<open>
  The characters below 256 that \<^verbatim>\<open>\s\<close> matches in a Python 3 \<^verbatim>\<open>str\<close> pattern:
  tab, line feed, vertical tab, form feed, carriage return, the four separators
  \<^verbatim>\<open>\x1c\<close> to \<^verbatim>\<open>\x1f\<close>, the space, next line (\<^verbatim>\<open>\x85\<close>) and the no-break space
  (\<^verbatim>\<open>\xa0\<close>).
\<close>

definition is_space :: "char \<Rightarrow> bool" where
  "is_space c =
     (let n = (of_char c :: nat)
      in (9 \<le> n \<and> n \<le> 13) \<or> (28 \<le> n \<and> n \<le> 32) \<or> n = 133 \<or> n = 160)"

text \<open>\<^verbatim>\<open>re.sub('\\s+', '_', s)\<close>: every maximal run of whitespace becomes one underscore.\<close>

function re_sub_spaces :: "string \<Rightarrow> string" where
  "re_sub_spaces [] = []"
| "re_sub_spaces (c # cs) =
     (if is_space c then CHR ''_'' # re_sub_spaces (dropWhile is_space cs)
      else c # re_sub_spaces cs)"
  by pat_completeness auto
termination
  by (relation "measure length") (auto simp: length_dropWhile_le less_Suc_eq_le)

subsection \<open>The mapping document\<close>

text \<open>
  A waypoint \<^verbatim>\<open>{'value', 'lesser', 'equal', 'greater'}\<close> and a discrete entry
  \<^verbatim>\<open>{'key', 'value'}\<close>. Column values have type \<open>'c\<close>, property values type \<open>'p\<close>.
\<close>

record ('c, 'p) waypoint =
  point_value :: 'c
  lesser :: 'p
  equal :: 'p
  greater :: 'p

record ('c, 'p) map_entry =
  key :: 'c
  entry_value :: 'p

text \<open>
  The dict returned by \<^verbatim>\<open>map_visual_property\<close>. The keys \<^verbatim>\<open>'map'\<close> and
  \<^verbatim>\<open>'points'\<close> are present only for a discrete and a continuous mapping: an absent key
  is \<open>None\<close>.
\<close>

record ('c, 'p) mapping =
  mappingType :: string
  mappingColumn :: string
  mappingColumnType :: string
  visualProperty :: string
  map_cargo :: "('c, 'p) map_entry list option"
  points_cargo :: "('c, 'p) waypoint list option"

text \<open>A row of \<^verbatim>\<open>GET networks/{suid}/tables/{table}/columns\<close>.\<close>

record column =
  col_name :: string
  col_type :: string

text \<open>The \<^verbatim>\<open>network\<close> argument: \<^verbatim>\<open>None\<close> (the current network), a name or a SUID.\<close>

datatype network = CurrentNetwork | NetworkName string | NetworkSuid int

subsection \<open>The remote application and the calls made to it\<close>

text \<open>
  The collaborators, as functions of the remote state \<open>'s\<close>. A read returns a value or
  raises and leaves the remote state as it is; a write also returns the new remote state.
  \<^verbatim>\<open>commands.cyrest_get\<close> is used on two endpoints with two response shapes, hence the
  two fields \<open>cyrest_get_columns\<close> and \<open>cyrest_get_mappings\<close>, both taking the URL.
  \<open>set_visual_property_default\<close> takes the visual property, the value and the style name.
\<close>

record ('s, 'c, 'p) cytoscape =
  get_network_suid :: "network \<Rightarrow> 's \<Rightarrow> error + int"
  get_visual_property_names :: "'s \<Rightarrow> error + string list"
  table_column_exists :: "string \<Rightarrow> string \<Rightarrow> network \<Rightarrow> 's \<Rightarrow> error + bool"
  cyrest_get_columns :: "string \<Rightarrow> 's \<Rightarrow> error + column list"
  cyrest_get_mappings :: "string \<Rightarrow> 's \<Rightarrow> error + ('c, 'p) mapping list"
  cyrest_put :: "string \<Rightarrow> ('c, 'p) mapping list \<Rightarrow> 's \<Rightarrow> (error + string) \<times> 's"
  cyrest_post :: "string \<Rightarrow> ('c, 'p) mapping list \<Rightarrow> 's \<Rightarrow> (error + string) \<times> 's"
  cyrest_delete :: "string \<Rightarrow> 's \<Rightarrow> (error + string) \<times> 's"
  set_visual_property_default :: "string \<Rightarrow> string \<Rightarrow> string \<Rightarrow> 's \<Rightarrow> (error + string) \<times> 's"

datatype ('c, 'p) call =
    GetNetworkSuid network
  | GetVisualPropertyNames
  | TableColumnExists string string network
  | CyrestGet string
  | CyrestPut string "('c, 'p) mapping list"
  | CyrestPost string "('c, 'p) mapping list"
  | CyrestDelete string
  | SetVisualPropertyDefault string string string

fun is_write :: "('c, 'p) call \<Rightarrow> bool" where
  "is_write (CyrestPut _ _) = True"
| "is_write (CyrestPost _ _) = True"
| "is_write (CyrestDelete _) = True"
| "is_write (SetVisualPropertyDefault _ _ _) = True"
| "is_write _ = False"

text \<open>
  A computation takes the remote state and returns its result (a value or the exception
  raised), the remote state it leaves and the calls it has made, oldest first.
\<close>

type_synonym ('s, 'c, 'p, 'a) action = "'s \<Rightarrow> (error + 'a) \<times> 's \<times> ('c, 'p) call list"

definition ret :: "'a \<Rightarrow> ('s, 'c, 'p, 'a) action" where
  "ret a s = (Inr a, s, [])"

definition raise :: "error \<Rightarrow> ('s, 'c, 'p, 'a) action" where
  "raise e s = (Inl e, s, [])"

text \<open>Sequencing: an exception of the first computation ends the whole.\<close>

definition and_then ::
  "('s, 'c, 'p, 'a) action \<Rightarrow> ('a \<Rightarrow> ('s, 'c, 'p, 'b) action) \<Rightarrow> ('s, 'c, 'p, 'b) action" where
  "and_then m f s =
     (case m s of
        (Inl e, s1, t1) \<Rightarrow> (Inl e, s1, t1)
      | (Inr a, s1, t1) \<Rightarrow> (case f a s1 of (r, s2, t2) \<Rightarrow> (r, s2, t1 @ t2)))"

definition do_read :: "('s \<Rightarrow> error + 'a) \<Rightarrow> ('c, 'p) call \<Rightarrow> ('s, 'c, 'p, 'a) action" where
  "do_read f c s = (f s, s, [c])"

definition do_write :: "('s \<Rightarrow> (error + 'a) \<times> 's) \<Rightarrow> ('c, 'p) call \<Rightarrow> ('s, 'c, 'p, 'a) action" where
  "do_write f c s = (case f s of (r, s1) \<Rightarrow> (r, s1, [c]))"

subsection \<open>\<^verbatim>\<open>map_visual_property\<close>\<close>

definition MAPPING_TYPES :: "(string \<times> string) list" where
  "MAPPING_TYPES = [(''c'', ''continuous''), (''d'', ''discrete''), (''p'', ''passthrough'')]"

definition PROPERTY_NAMES :: "(string \<times> string) list" where
  "PROPERTY_NAMES =
     [(''EDGE_COLOR'', ''EDGE_UNSELECTED_PAINT''), (''EDGE_THICKNESS'', ''EDGE_WIDTH''),
      (''NODE_BORDER_COLOR'', ''NODE_BORDER_PAINT''),
      (''NODE_BORDER_LINE_TYPE'', ''NODE_BORDER_STROKE'')]"

text \<open>Line 107.\<close>

definition mapping_type_name :: "string \<Rightarrow> string" where
  "mapping_type_name mapping_type =
     (case map_of MAPPING_TYPES mapping_type of Some t \<Rightarrow> t | None \<Rightarrow> mapping_type)"

text \<open>Lines 110 and 111.\<close>

definition visual_prop_name :: "string \<Rightarrow> string" where
  "visual_prop_name visual_prop =
     (let n = upper (re_sub_spaces visual_prop)
      in case map_of PROPERTY_NAMES n of Some a \<Rightarrow> a | None \<Rightarrow> n)"

text \<open>Lines 119 and 120: \<^verbatim>\<open>'default' + visual_prop_name.split('_')[0].lower()\<close>.\<close>

definition table_of :: "string \<Rightarrow> string" where
  "table_of vpn = ''default'' @ lower (takeWhile (\<lambda>c. c \<noteq> CHR ''_'') vpn)"

definition columns_url :: "int \<Rightarrow> string \<Rightarrow> string" where
  "columns_url suid table = ''networks/'' @ str_int suid @ ''/tables/'' @ table @ ''/columns''"

text \<open>The messages of the three \<^verbatim>\<open>CyError\<close>s that \<^verbatim>\<open>map_visual_property\<close> raises.\<close>

definition unknown_property :: "string \<Rightarrow> error" where
  "unknown_property vpn =
     CyError (''Could not find '' @ vpn @
              ''. Run get_visual_property_names() to retrieve property names.'')"

definition unknown_column :: "string \<Rightarrow> string \<Rightarrow> error" where
  "unknown_column table_column table =
     CyError (''Could not find '' @ table_column @ '' column in '' @ table @ '' table.'')"

definition mismatched_lengths :: error where
  "mismatched_lengths =
     CyError (''Error: table.column.values and visual.prop.values don'' @ [CHR 0x27] @
              ''t match up.'')"

definition point_of :: "'c \<times> 'p \<Rightarrow> ('c, 'p) waypoint" where
  "point_of cp = \<lparr>point_value = fst cp, lesser = snd cp, equal = snd cp, greater = snd cp\<rparr>"

definition entry_of :: "'c \<times> 'p \<Rightarrow> ('c, 'p) map_entry" where
  "entry_of cp = \<lparr>key = fst cp, entry_value = snd cp\<rparr>"

text \<open>
  Lines 137 to 151, the waypoints of a continuous mapping. With two extra property values
  the waypoints are built from \<^verbatim>\<open>visual_prop_values[1:]\<close>, then \<^verbatim>\<open>points[0]\<close> and
  \<^verbatim>\<open>points[col_val_count - 1]\<close> are updated in place; both are Python index
  expressions and raise IndexError out of range.
\<close>

definition continuous_points :: "'c list \<Rightarrow> 'p list \<Rightarrow> error + ('c, 'p) waypoint list" where
  "continuous_points table_column_values visual_prop_values =
     (let prop_val_count = int (length visual_prop_values);
          col_val_count = int (length table_column_values)
      in if prop_val_count - col_val_count = 2 then
           (let matched_visual_prop_values = drop 1 visual_prop_values;
                points = map point_of (zip table_column_values matched_visual_prop_values)
            in case getitem visual_prop_values 0 of
                 Inl e \<Rightarrow> Inl e
               | Inr v0 \<Rightarrow>
                  (case py_index points 0 of
                     None \<Rightarrow> Inl IndexError
                   | Some i0 \<Rightarrow>
                      (let points1 = points[i0 := (points ! i0)\<lparr>lesser := v0\<rparr>]
                       in case getitem visual_prop_values (- 1) of
                            Inl e \<Rightarrow> Inl e
                          | Inr vl \<Rightarrow>
                             (case py_index points1 (col_val_count - 1) of
                                None \<Rightarrow> Inl IndexError
                              | Some i1 \<Rightarrow>
                                 Inr (points1[i1 := (points1 ! i1)\<lparr>greater := vl\<rparr>])))))
         else if prop_val_count - col_val_count = 0 then
           Inr (map point_of (zip table_column_values visual_prop_values))
         else Inl mismatched_lengths)"

text \<open>
  Lines 131 to 155. The two value lists are \<open>None\<close> when the caller passed Python's
  \<^verbatim>\<open>None\<close> (the default of the functions of section II): \<^verbatim>\<open>zip\<close> and \<^verbatim>\<open>len\<close> then
  raise TypeError.
\<close>

definition construct_map ::
  "string \<Rightarrow> string \<Rightarrow> string \<Rightarrow> string \<Rightarrow> 'c list option \<Rightarrow> 'p list option \<Rightarrow>
   error + ('c, 'p) mapping" where
  "construct_map mtn table_column table_column_type vpn table_column_values visual_prop_values =
     (let visual_prop_map =
            \<lparr>mappingType = mtn, mappingColumn = table_column,
             mappingColumnType = table_column_type, visualProperty = vpn,
             map_cargo = None, points_cargo = None\<rparr>
      in if mtn = ''discrete'' then
           (case (table_column_values, visual_prop_values) of
              (Some cs, Some ps) \<Rightarrow>
                Inr (visual_prop_map\<lparr>map_cargo := Some (map entry_of (zip cs ps))\<rparr>)
            | _ \<Rightarrow> Inl TypeError)
         else if mtn = ''continuous'' then
           (case (table_column_values, visual_prop_values) of
              (Some cs, Some ps) \<Rightarrow>
                (case continuous_points cs ps of
                   Inl e \<Rightarrow> Inl e
                 | Inr points \<Rightarrow> Inr (visual_prop_map\<lparr>points_cargo := Some points\<rparr>))
            | _ \<Rightarrow> Inl TypeError)
         else Inr visual_prop_map)"

definition map_visual_property ::
  "('s, 'c, 'p) cytoscape \<Rightarrow> string \<Rightarrow> string \<Rightarrow> string \<Rightarrow> 'c list option \<Rightarrow> 'p list option \<Rightarrow>
   network \<Rightarrow> ('s, 'c, 'p, ('c, 'p) mapping) action" where
  "map_visual_property cy visual_prop table_column mapping_type table_column_values
       visual_prop_values network =
     and_then (do_read (get_network_suid cy network) (GetNetworkSuid network)) (\<lambda>suid.
     and_then (do_read (get_visual_property_names cy) GetVisualPropertyNames) (\<lambda>names.
       if visual_prop_name visual_prop \<notin> set names
       then raise (unknown_property (visual_prop_name visual_prop))
       else
         (let table = table_of (visual_prop_name visual_prop);
              url = columns_url suid table
          in and_then (do_read (cyrest_get_columns cy url) (CyrestGet url)) (\<lambda>res.
               case find (\<lambda>col. col_name col = table_column) res of
                 None \<Rightarrow> raise (unknown_column table_column table)
               | Some col \<Rightarrow>
                  (case construct_map (mapping_type_name mapping_type) table_column
                          (col_type col) (visual_prop_name visual_prop)
                          table_column_values visual_prop_values of
                     Inl e \<Rightarrow> raise e
                   | Inr visual_prop_map \<Rightarrow> ret visual_prop_map)))))"

subsection \<open>\<^verbatim>\<open>update_style_mapping\<close> and \<^verbatim>\<open>delete_style_mapping\<close>\<close>

definition mappings_url :: "string \<Rightarrow> string" where
  "mappings_url style_name = ''styles/'' @ style_name @ ''/mappings''"

definition update_style_mapping ::
  "('s, 'c, 'p) cytoscape \<Rightarrow> string \<Rightarrow> ('c, 'p) mapping \<Rightarrow> ('s, 'c, 'p, string) action" where
  "update_style_mapping cy style_name mapping =
     (let vp = visualProperty mapping
      in and_then (do_read (cyrest_get_mappings cy (mappings_url style_name))
                     (CyrestGet (mappings_url style_name))) (\<lambda>res.
           let vp_list = map visualProperty res;
               exists = (vp \<in> set vp_list)
           in if exists
              then do_write (cyrest_put cy (mappings_url style_name @ ''/'' @ vp) [mapping])
                     (CyrestPut (mappings_url style_name @ ''/'' @ vp) [mapping])
              else do_write (cyrest_post cy (mappings_url style_name) [mapping])
                     (CyrestPost (mappings_url style_name) [mapping])))"

text \<open>The result is \<open>None\<close> for Python's \<^verbatim>\<open>None\<close>: the property has no mapping in the style.\<close>

definition delete_style_mapping ::
  "('s, 'c, 'p) cytoscape \<Rightarrow> string \<Rightarrow> string \<Rightarrow> ('s, 'c, 'p, string option) action" where
  "delete_style_mapping cy style_name visual_prop =
     and_then (do_read (cyrest_get_mappings cy (mappings_url style_name))
                 (CyrestGet (mappings_url style_name))) (\<lambda>res.
       let vp_list = map visualProperty res;
           exists = (visual_prop \<in> set vp_list)
       in if exists
          then and_then (do_write (cyrest_delete cy (mappings_url style_name @ ''/'' @ visual_prop))
                           (CyrestDelete (mappings_url style_name @ ''/'' @ visual_prop)))
                 (\<lambda>res. ret (Some res))
          else ret None)"

subsection \<open>\<^verbatim>\<open>_update_style_mapping\<close> and the opacity functions\<close>

text \<open>
  The tail of \<^verbatim>\<open>_update_style_mapping\<close>: the mapping that was built is applied and the
  answer of the write is returned.
\<close>

definition apply_mvp ::
  "('s, 'c, 'p) cytoscape \<Rightarrow> string \<Rightarrow> ('s, 'c, 'p, ('c, 'p) mapping) action \<Rightarrow>
   ('s, 'c, 'p, string option) action" where
  "apply_mvp cy style_name build =
     and_then build (\<lambda>mvp.
     and_then (update_style_mapping cy style_name mvp) (\<lambda>res. ret (Some res)))"

text \<open>
  \<^verbatim>\<open>_update_style_mapping\<close>. The parameter \<open>str\<close> is Python's \<^verbatim>\<open>str\<close> on the values
  of \<^verbatim>\<open>range_map\<close>. A mapping type that is not recognised returns \<^verbatim>\<open>None\<close>.
\<close>

definition priv_update_style_mapping ::
  "('s, 'c, string) cytoscape \<Rightarrow> ('v \<Rightarrow> string) \<Rightarrow> string \<Rightarrow> string \<Rightarrow> 'c list option \<Rightarrow>
   'v list option \<Rightarrow> string \<Rightarrow> string \<Rightarrow> network \<Rightarrow> string list \<Rightarrow>
   ('s, 'c, string, string option) action" where
  "priv_update_style_mapping cy str vpn table_column table_column_values range_map
       mapping_type style_name network supported_mappings =
     (let range_map = map_option (map str) range_map
      in if mapping_type \<in> set [''continuous'', ''c'', ''interpolate''] then
           (if ''c'' \<in> set supported_mappings
            then apply_mvp cy style_name
                   (map_visual_property cy vpn table_column ''c'' table_column_values range_map
                      network)
            else raise (CyError (''Continuous mapping of '' @ vpn @ '' values is not supported.'')))
         else if mapping_type \<in> set [''discrete'', ''d'', ''lookup''] then
           (if ''d'' \<in> set supported_mappings
            then apply_mvp cy style_name
                   (map_visual_property cy vpn table_column ''d'' table_column_values range_map
                      network)
            else raise (CyError (''Discrete mapping of '' @ vpn @ '' values is not supported.'')))
         else if mapping_type \<in> set [''passthrough'', ''p''] then
           (if ''p'' \<in> set supported_mappings
            then apply_mvp cy style_name
                   (map_visual_property cy vpn table_column ''p'' (Some []) (Some []) network)
            else raise (CyError (''Passthrough mapping of '' @ vpn @ '' values is not supported.'')))
         else ret None)"

definition all_mappings :: "string list" where
  "all_mappings = [''c'', ''d'', ''p'']"

definition column_missing :: error where
  "column_missing = CyError ''Table column does not exist. Please try again.''"

text \<open>\<^verbatim>\<open>for o in opacities or []: if o < 0 or o > 255: ... return None\<close>\<close>

definition bad_opacity :: "int \<Rightarrow> bool" where
  "bad_opacity v = (v < 0 \<or> v > 255)"

definition some_bad_opacity :: "int list option \<Rightarrow> bool" where
  "some_bad_opacity opacities =
     (\<exists>v \<in> set (case opacities of None \<Rightarrow> [] | Some vs \<Rightarrow> vs). bad_opacity v)"

definition set_default ::
  "('s, 'c, 'p) cytoscape \<Rightarrow> string \<Rightarrow> string \<Rightarrow> string \<Rightarrow> ('s, 'c, 'p, string) action" where
  "set_default cy vp v style_name =
     do_write (set_visual_property_default cy vp v style_name)
       (SetVisualPropertyDefault vp v style_name)"

definition set_node_border_opacity_mapping ::
  "('s, 'c, string) cytoscape \<Rightarrow> string \<Rightarrow> 'c list option \<Rightarrow> int list option \<Rightarrow> string \<Rightarrow>
   int option \<Rightarrow> string \<Rightarrow> network \<Rightarrow> ('s, 'c, string, string option) action" where
  "set_node_border_opacity_mapping cy table_column table_column_values opacities mapping_type
       default_opacity style_name network =
     and_then (do_read (table_column_exists cy table_column ''node'' network)
                 (TableColumnExists table_column ''node'' network)) (\<lambda>exists.
       if \<not> exists then raise column_missing
       else if some_bad_opacity opacities then ret None
       else
         (case default_opacity of
            None \<Rightarrow>
              priv_update_style_mapping cy str_int ''NODE_BORDER_TRANSPARENCY'' table_column
                table_column_values opacities mapping_type style_name network all_mappings
          | Some d \<Rightarrow>
              if bad_opacity d then ret None
              else
                and_then (set_default cy ''NODE_BORDER_TRANSPARENCY'' (str_int d) style_name)
                  (\<lambda>_.
                priv_update_style_mapping cy str_int ''NODE_BORDER_TRANSPARENCY'' table_column
                  table_column_values opacities mapping_type style_name network all_mappings)))"

definition set_node_fill_opacity_mapping ::
  "('s, 'c, string) cytoscape \<Rightarrow> string \<Rightarrow> 'c list option \<Rightarrow> int list option \<Rightarrow> string \<Rightarrow>
   int option \<Rightarrow> string \<Rightarrow> network \<Rightarrow> ('s, 'c, string, string option) action" where
  "set_node_fill_opacity_mapping cy table_column table_column_values opacities mapping_type
       default_opacity style_name network =
     and_then (do_read (table_column_exists cy table_column ''node'' network)
                 (TableColumnExists table_column ''node'' network)) (\<lambda>exists.
       if \<not> exists then raise column_missing
       else if some_bad_opacity opacities then ret None
       else
         (case default_opacity of
            None \<Rightarrow>
              priv_update_style_mapping cy str_int ''NODE_TRANSPARENCY'' table_column
                table_column_values opacities mapping_type style_name network all_mappings
          | Some d \<Rightarrow>
              if bad_opacity d then ret None
              else
                and_then (set_default cy ''NODE_TRANSPARENCY'' (str_int d) style_name) (\<lambda>_.
                priv_update_style_mapping cy str_int ''NODE_TRANSPARENCY'' table_column
                  table_column_values opacities mapping_type style_name network all_mappings)))"

text \<open>
  Lines 540 to 546 of \<^verbatim>\<open>set_node_combo_opacity_mapping\<close>: three calls in a row, the
  results of the first two dropped.
\<close>

definition combo_updates ::
  "('s, 'c, string) cytoscape \<Rightarrow> string \<Rightarrow> 'c list option \<Rightarrow> int list option \<Rightarrow> string \<Rightarrow>
   string \<Rightarrow> network \<Rightarrow> ('s, 'c, string, string option) action" where
  "combo_updates cy table_column table_column_values opacities mapping_type style_name network =
     and_then (priv_update_style_mapping cy str_int ''NODE_TRANSPARENCY'' table_column
                 table_column_values opacities mapping_type style_name network all_mappings)
       (\<lambda>_.
     and_then (priv_update_style_mapping cy str_int ''NODE_BORDER_TRANSPARENCY'' table_column
                 table_column_values opacities mapping_type style_name network all_mappings)
       (\<lambda>_.
     and_then (priv_update_style_mapping cy str_int ''NODE_LABEL_TRANSPARENCY'' table_column
                 table_column_values opacities mapping_type style_name network all_mappings)
       (\<lambda>res. ret res)))"

definition set_node_combo_opacity_mapping ::
  "('s, 'c, string) cytoscape \<Rightarrow> string \<Rightarrow> 'c list option \<Rightarrow> int list option \<Rightarrow> string \<Rightarrow>
   int option \<Rightarrow> string \<Rightarrow> network \<Rightarrow> ('s, 'c, string, string option) action" where
  "set_node_combo_opacity_mapping cy table_column table_column_values opacities mapping_type
       default_opacity style_name network =
     and_then (do_read (table_column_exists cy table_column ''node'' network)
                 (TableColumnExists table_column ''node'' network)) (\<lambda>exists.
       if \<not> exists then raise column_missing
       else if some_bad_opacity opacities then ret None
       else
         (case default_opacity of
            None \<Rightarrow>
              combo_updates cy table_column table_column_values opacities mapping_type
                style_name network
          | Some d \<Rightarrow>
              if bad_opacity d then ret None
              else
                and_then (set_default cy ''NODE_TRANSPARENCY'' (str_int d) style_name) (\<lambda>_.
                and_then (set_default cy ''NODE_BORDER_TRANSPARENCY'' (str_int d) style_name)
                  (\<lambda>_.
                and_then (set_default cy ''NODE_LABEL_TRANSPARENCY'' (str_int d) style_name)
                  (\<lambda>_.
                combo_updates cy table_column table_column_values opacities mapping_type
                  style_name network)))))"

subsection \<open>Reading the calls that were made\<close>

text \<open>The visual properties whose mapping a sequence of calls has written, in order.\<close>

fun written_properties :: "('c, 'p) call \<Rightarrow> string list" where
  "written_properties (CyrestPut url body) = map visualProperty body"
| "written_properties (CyrestPost url body) = map visualProperty body"
| "written_properties _ = []"

definition mapping_writes :: "('c, 'p) call list \<Rightarrow> string list" where
  "mapping_writes calls = concat (map written_properties calls)"

text \<open>The mapping types that \<^verbatim>\<open>_update_style_mapping\<close> recognises.\<close>

definition recognised :: "string \<Rightarrow> bool" where
  "recognised mapping_type \<longleftrightarrow>
     mapping_type \<in> set [''continuous'', ''c'', ''interpolate'', ''discrete'', ''d'', ''lookup'',
                         ''passthrough'', ''p'']"

subsection \<open>A small remote application to run the functions on\<close>

text \<open>
  One network (SUID 52) with the node columns \<open>score\<close> and \<open>degree\<close>, the edge
  columns \<open>interaction\<close> and \<open>weight\<close> and the network column \<open>name\<close>, one style
  \<open>default\<close>, and a number of writes that the application still accepts before it refuses
  the connection.
\<close>

record demo_state =
  style_mappings :: "(int, string) mapping list"
  budget :: nat

definition demo_names :: "string list" where
  "demo_names =
     [''NODE_FILL_COLOR'', ''NODE_SHAPE'', ''NODE_LABEL'', ''NODE_BORDER_PAINT'',
      ''NODE_TRANSPARENCY'', ''NODE_BORDER_TRANSPARENCY'', ''NODE_LABEL_TRANSPARENCY'',
      ''EDGE_UNSELECTED_PAINT'', ''EDGE_WIDTH'', ''NETWORK_TITLE'']"

definition demo_columns :: "column list" where
  "demo_columns =
     [\<lparr>col_name = ''score'', col_type = ''Double''\<rparr>,
      \<lparr>col_name = ''degree'', col_type = ''Integer''\<rparr>]"

definition demo_edge_columns :: "column list" where
  "demo_edge_columns =
     [\<lparr>col_name = ''interaction'', col_type = ''String''\<rparr>,
      \<lparr>col_name = ''weight'', col_type = ''Double''\<rparr>]"

definition demo_network_columns :: "column list" where
  "demo_network_columns = [\<lparr>col_name = ''name'', col_type = ''String''\<rparr>]"

definition demo_write ::
  "((int, string) mapping list \<Rightarrow> (int, string) mapping list) \<Rightarrow> demo_state \<Rightarrow>
   (error + string) \<times> demo_state" where
  "demo_write f s =
     (if budget s = 0 then (Inl (RequestException ''connection refused''), s)
      else (Inr [], \<lparr>style_mappings = f (style_mappings s), budget = budget s - 1\<rparr>))"

definition demo :: "(demo_state, int, string) cytoscape" where
  "demo =
     \<lparr>get_network_suid = (\<lambda>network s. Inr 52),
      get_visual_property_names = (\<lambda>s. Inr demo_names),
      table_column_exists =
        (\<lambda>c table network s. Inr (table = ''node'' \<and> c \<in> set (map col_name demo_columns))),
      cyrest_get_columns =
        (\<lambda>url s. if url = ''networks/52/tables/defaultnode/columns'' then Inr demo_columns
                  else if url = ''networks/52/tables/defaultedge/columns''
                  then Inr demo_edge_columns
                  else if url = ''networks/52/tables/defaultnetwork/columns''
                  then Inr demo_network_columns
                  else Inl (CyError ''no such table'')),
      cyrest_get_mappings =
        (\<lambda>url s. if url = ''styles/default/mappings'' then Inr (style_mappings s)
                  else Inl (CyError ''no such style'')),
      cyrest_put =
        (\<lambda>url body. demo_write
           (\<lambda>ms. body @ filter (\<lambda>m. visualProperty m \<notin> set (map visualProperty body)) ms)),
      cyrest_post =
        (\<lambda>url body. demo_write
           (\<lambda>ms. body @ filter (\<lambda>m. visualProperty m \<notin> set (map visualProperty body)) ms)),
      cyrest_delete =
        (\<lambda>url. demo_write
           (filter (\<lambda>m. url \<noteq> ''styles/default/mappings/'' @ visualProperty m))),
      set_visual_property_default = (\<lambda>vp v style_name. demo_write (\<lambda>ms. ms))\<rparr>"

definition demo_start :: demo_state where
  "demo_start = \<lparr>style_mappings = [], budget = 10\<rparr>"


text \<open>The same application when it accepts no write, and when it accepts one.\<close>

definition demo_refusing :: demo_state where
  "demo_refusing = \<lparr>style_mappings = [], budget = 0\<rparr>"

definition demo_one_write :: demo_state where
  "demo_one_write = \<lparr>style_mappings = [], budget = 1\<rparr>"

text \<open>
  A remote application that keeps the mappings of several named styles: a write goes to
  the style that its URL names.
\<close>

definition addressed :: "string \<Rightarrow> string \<Rightarrow> bool" where
  "addressed style_name url =
     (url = ''styles/'' @ style_name @ ''/mappings'' \<or>
      take (length (''styles/'' @ style_name @ ''/mappings/'')) url
        = ''styles/'' @ style_name @ ''/mappings/'')"

definition styles_write ::
  "string \<Rightarrow> ((int, string) mapping list \<Rightarrow> (int, string) mapping list) \<Rightarrow>
   (string \<times> (int, string) mapping list) list \<Rightarrow>
   (error + string) \<times> (string \<times> (int, string) mapping list) list" where
  "styles_write url f s =
     (if \<exists>p \<in> set s. addressed (fst p) url
      then (Inr [], map (\<lambda>p. if addressed (fst p) url then (fst p, f (snd p)) else p) s)
      else (Inl (CyError ''no such style''), s))"

definition styles_app :: "((string \<times> (int, string) mapping list) list, int, string) cytoscape" where
  "styles_app =
     \<lparr>get_network_suid = (\<lambda>network s. Inr 52),
      get_visual_property_names = (\<lambda>s. Inr demo_names),
      table_column_exists =
        (\<lambda>c table network s. Inr (table = ''node'' \<and> c \<in> set (map col_name demo_columns))),
      cyrest_get_columns =
        (\<lambda>url s. if url = ''networks/52/tables/defaultnode/columns'' then Inr demo_columns
                  else Inl (CyError ''no such table'')),
      cyrest_get_mappings =
        (\<lambda>url s. case find (\<lambda>p. url = ''styles/'' @ fst p @ ''/mappings'') s of
                    Some p \<Rightarrow> Inr (snd p)
                  | None \<Rightarrow> Inl (CyError ''no such style'')),
      cyrest_put =
        (\<lambda>url body. styles_write url
           (\<lambda>ms. body @ filter (\<lambda>m. visualProperty m \<notin> set (map visualProperty body)) ms)),
      cyrest_post =
        (\<lambda>url body. styles_write url
           (\<lambda>ms. body @ filter (\<lambda>m. visualProperty m \<notin> set (map visualProperty body)) ms)),
      cyrest_delete =
        (\<lambda>url. styles_write url
           (filter (\<lambda>m. drop (length url - length (''/'' @ visualProperty m)) url
                          \<noteq> ''/'' @ visualProperty m))),
      set_visual_property_default = (\<lambda>vp v style_name s. (Inr [], s))\<rparr>"

definition demo_label :: "(int, string) mapping" where
  "demo_label =
     \<lparr>mappingType = ''passthrough'', mappingColumn = ''score'',
      mappingColumnType = ''Double'', visualProperty = ''NODE_LABEL'',
      map_cargo = None, points_cargo = None\<rparr>"

section \<open>Properties\<close>

subsection \<open>Sequencing and Python indexing\<close>

lemma py_index_first: "xs \<noteq> [] \<Longrightarrow> py_index xs 0 = Some 0"
  by (simp add: py_index_def)

lemma py_index_last:
  "xs \<noteq> [] \<Longrightarrow> i = int (length xs) - 1 \<Longrightarrow> py_index xs i = Some (length xs - 1)"
  by (cases xs) (simp_all add: py_index_def)

lemma getitem_first: "xs \<noteq> [] \<Longrightarrow> getitem xs 0 = Inr (xs ! 0)"
  by (simp add: getitem_def py_index_first)

lemma getitem_last: "xs \<noteq> [] \<Longrightarrow> getitem xs (- 1) = Inr (last xs)"
  by (cases xs rule: rev_cases) (simp_all add: getitem_def py_index_def nth_append)

subsection \<open>Normalising names\<close>

lemma mapping_type_name_continuous:
  "mapping_type = ''c'' \<or> mapping_type = ''continuous'' \<Longrightarrow> mapping_type_name mapping_type = ''continuous''"
  by (auto simp: mapping_type_name_def MAPPING_TYPES_def)

lemma mapping_type_name_discrete:
  "mapping_type = ''d'' \<or> mapping_type = ''discrete'' \<Longrightarrow> mapping_type_name mapping_type = ''discrete''"
  by (auto simp: mapping_type_name_def MAPPING_TYPES_def)

lemma mapping_type_name_other:
  "mapping_type \<notin> {''c'', ''d'', ''p'', ''continuous'', ''discrete'', ''passthrough''} \<Longrightarrow>
   mapping_type_name mapping_type = mapping_type"
  by (simp add: mapping_type_name_def MAPPING_TYPES_def)

lemma visual_prop_name_examples:
  "visual_prop_name ''node fill color'' = ''NODE_FILL_COLOR''"
  "visual_prop_name ''node shape'' = ''NODE_SHAPE''"
  "visual_prop_name ''Node  Label'' = ''NODE_LABEL''"
  "visual_prop_name ''node label'' = ''NODE_LABEL''"
  "visual_prop_name ''edge color'' = ''EDGE_UNSELECTED_PAINT''"
  "visual_prop_name ''node border color'' = ''NODE_BORDER_PAINT''"
  "visual_prop_name ''NODE_TRANSPARENCY'' = ''NODE_TRANSPARENCY''"
  "visual_prop_name ''NODE_BORDER_TRANSPARENCY'' = ''NODE_BORDER_TRANSPARENCY''"
  "visual_prop_name ''NODE_LABEL_TRANSPARENCY'' = ''NODE_LABEL_TRANSPARENCY''"
  by code_simp+

subsection \<open>What \<^verbatim>\<open>map_visual_property\<close> returns once the schema reads have answered\<close>

lemma map_visual_property_reads:
  assumes "get_network_suid cy network s = Inr suid"
    and "get_visual_property_names cy s = Inr names"
    and "visual_prop_name visual_prop \<in> set names"
    and "cyrest_get_columns cy (columns_url suid (table_of (visual_prop_name visual_prop))) s = Inr cols"
    and "find (\<lambda>col. col_name col = table_column) cols = Some col"
  shows "map_visual_property cy visual_prop table_column mapping_type tcv vpv network s =
          (construct_map (mapping_type_name mapping_type) table_column (col_type col)
             (visual_prop_name visual_prop) tcv vpv, s,
           [GetNetworkSuid network, GetVisualPropertyNames,
            CyrestGet (columns_url suid (table_of (visual_prop_name visual_prop)))])"
  using assms
  by (simp add: map_visual_property_def and_then_def do_read_def ret_def raise_def Let_def
      split: sum.split)

lemma map_visual_property_Inr:
  assumes "fst (map_visual_property cy visual_prop table_column mapping_type tcv vpv network s) = Inr doc"
  shows "\<exists>suid names cols col. get_network_suid cy network s = Inr suid \<and>
     get_visual_property_names cy s = Inr names \<and> visual_prop_name visual_prop \<in> set names \<and>
     cyrest_get_columns cy (columns_url suid (table_of (visual_prop_name visual_prop))) s = Inr cols \<and>
     find (\<lambda>col. col_name col = table_column) cols = Some col \<and>
     construct_map (mapping_type_name mapping_type) table_column (col_type col)
             (visual_prop_name visual_prop) tcv vpv = Inr doc"
  using assms
  by (auto simp add: map_visual_property_def and_then_def do_read_def ret_def raise_def Let_def
      split: sum.splits option.splits if_splits)

subsection \<open>The waypoints of a continuous mapping\<close>

lemma continuous_points_equal:
  "length ps = length cs \<Longrightarrow> continuous_points cs ps = Inr (map point_of (zip cs ps))"
  by (simp add: continuous_points_def)

lemma continuous_points_mismatch:
  "int (length ps) - int (length cs) \<noteq> 0 \<Longrightarrow> int (length ps) - int (length cs) \<noteq> 2 \<Longrightarrow>
   continuous_points cs ps = Inl mismatched_lengths"
  by (simp add: continuous_points_def)

lemma continuous_points_two_extra_empty:
  "length ps = 2 \<Longrightarrow> continuous_points [] ps = Inl IndexError"
  by (simp add: continuous_points_def getitem_def py_index_def Let_def)

lemma continuous_points_two_extra_eq:
  assumes "length ps = length cs + 2" and "cs \<noteq> []"
  shows "continuous_points cs ps =
    Inr (let points = map point_of (zip cs (drop 1 ps));
             points1 = points[0 := (points ! 0)\<lparr>lesser := ps ! 0\<rparr>]
         in points1[length cs - 1 := (points1 ! (length cs - 1))\<lparr>greater := last ps\<rparr>])"
proof -
  have ps: "ps \<noteq> []" using assms by auto
  show ?thesis
    using assms
    by (simp add: continuous_points_def getitem_first [OF ps] getitem_last [OF ps]
        py_index_first py_index_last Let_def)
qed

text \<open>
  With at least one column value and two extra property values: one waypoint per column
  value; the first \<open>lesser\<close> is the first property value, the last \<open>greater\<close> is the last
  property value, and every other slot holds the interior property value of its waypoint.
\<close>

lemma continuous_points_two_extra:
  assumes "length ps = length cs + 2" and "cs \<noteq> []"
  shows "\<exists>pts. continuous_points cs ps = Inr pts \<and> length pts = length cs \<and>
     (\<forall>i<length cs. point_value (pts ! i) = cs ! i \<and> equal (pts ! i) = ps ! (i + 1) \<and>
        lesser (pts ! i) = (if i = 0 then ps ! 0 else ps ! (i + 1)) \<and>
        greater (pts ! i) = (if i = length cs - 1 then last ps else ps ! (i + 1)))"
proof -
  let ?points = "map point_of (zip cs (drop 1 ps))"
  let ?points1 = "?points[0 := (?points ! 0)\<lparr>lesser := ps ! 0\<rparr>]"
  let ?pts = "?points1[length cs - 1 := (?points1 ! (length cs - 1))\<lparr>greater := last ps\<rparr>]"
  have eq: "continuous_points cs ps = Inr ?pts"
    using continuous_points_two_extra_eq [OF assms] by (simp add: Let_def)
  have len: "length ?pts = length cs" using assms by simp
  have nth: "?points ! i = point_of (cs ! i, ps ! (i + 1))" if "i < length cs" for i
    using that assms by simp
  have "point_value (?pts ! i) = cs ! i \<and> equal (?pts ! i) = ps ! (i + 1) \<and>
        lesser (?pts ! i) = (if i = 0 then ps ! 0 else ps ! (i + 1)) \<and>
        greater (?pts ! i) = (if i = length cs - 1 then last ps else ps ! (i + 1))"
    if "i < length cs" for i
  proof -
    have l: "i < length ?points" "i < length ?points1" using that assms by simp_all
    have z: "0 < length cs" using assms by simp
    show ?thesis
      using that l nth [OF that] nth [OF z]
      by (cases "i = 0"; cases "i = length cs - 1")
         (simp_all add: nth_list_update point_of_def del: nth_map nth_zip length_map length_zip)
  qed
  with eq len show ?thesis by blast
qed

subsection \<open>The small remote application\<close>

lemma demo_reads:
  "get_network_suid demo network s = Inr 52"
  "get_visual_property_names demo s = Inr demo_names"
  "cyrest_get_columns demo ''networks/52/tables/defaultnode/columns'' s = Inr demo_columns"
  by (simp_all add: demo_def)

lemma columns_url_demo:
  "columns_url 52 (table_of ''NODE_FILL_COLOR'') = ''networks/52/tables/defaultnode/columns''"
  "columns_url 52 (table_of ''NODE_SHAPE'') = ''networks/52/tables/defaultnode/columns''"
  "columns_url 52 (table_of ''NODE_LABEL'') = ''networks/52/tables/defaultnode/columns''"
  by code_simp+

subsection \<open>The calls of the functions that apply a mapping\<close>

lemma mapping_writes_append [simp]:
  "mapping_writes (xs @ ys) = mapping_writes xs @ mapping_writes ys"
  by (simp add: mapping_writes_def)

lemma mapping_writes_simps [simp]:
  "mapping_writes [] = []"
  "mapping_writes (c # cs) = written_properties c @ mapping_writes cs"
  by (simp_all add: mapping_writes_def)

lemma and_then_Inr_E:
  assumes "and_then m f s = (Inr x, s', calls)"
  obtains a s1 t1 t2 where "m s = (Inr a, s1, t1)" and "f a s1 = (Inr x, s', t2)"
    and "calls = t1 @ t2"
  using assms
  by (auto simp: and_then_def split: prod.splits sum.splits)

lemma map_visual_property_calls:
  assumes "map_visual_property cy visual_prop table_column mapping_type tcv vpv network s
             = (r, s', calls)"
  shows "s' = s \<and> mapping_writes calls = [] \<and>
         (\<forall>doc. r = Inr doc \<longrightarrow> visualProperty doc = visual_prop_name visual_prop)"
  using assms
  by (auto simp: map_visual_property_def and_then_def do_read_def ret_def raise_def Let_def
      construct_map_def
      split: sum.splits option.splits if_splits prod.splits)

lemma update_style_mapping_calls:
  assumes "update_style_mapping cy style_name mapping s = (Inr x, s', calls)"
  shows "mapping_writes calls = [visualProperty mapping]"
  using assms
  by (auto simp: update_style_mapping_def and_then_def do_read_def do_write_def Let_def
      split: sum.splits if_splits prod.splits)

lemma apply_mvp_calls:
  assumes "apply_mvp cy style_name
             (map_visual_property cy visual_prop table_column mapping_type tcv vpv network) s
           = (Inr x, s', calls)"
  shows "x \<noteq> None \<and> mapping_writes calls = [visual_prop_name visual_prop]"
proof -
  from assms [unfolded apply_mvp_def] obtain mvp s1 t1 t2 where
    b: "map_visual_property cy visual_prop table_column mapping_type tcv vpv network s
          = (Inr mvp, s1, t1)"
    and u: "and_then (update_style_mapping cy style_name mvp) (\<lambda>res. ret (Some res)) s1
          = (Inr x, s', t2)"
    and c: "calls = t1 @ t2"
    by (rule and_then_Inr_E)
  from u obtain res s2 t3 t4 where
    w: "update_style_mapping cy style_name mvp s1 = (Inr res, s2, t3)"
    and r: "ret (Some res) s2 = (Inr x, s', t4)" and t: "t2 = t3 @ t4"
    by (rule and_then_Inr_E)
  from r have x: "x = Some res" and s2: "s2 = s'" and t4: "t4 = []"
    by (simp_all add: ret_def)
  from map_visual_property_calls [OF b] update_style_mapping_calls [OF w] c x t t4
  show ?thesis by simp
qed

lemma priv_update_style_mapping_calls:
  assumes "priv_update_style_mapping cy str vpn table_column tcv range_map mapping_type
             style_name network supported s = (Inr x, s', calls)"
  shows "(case x of
            None \<Rightarrow> \<not> recognised mapping_type \<and> calls = [] \<and> s' = s
          | Some r \<Rightarrow> recognised mapping_type \<and> mapping_writes calls = [visual_prop_name vpn])"
proof (cases "recognised mapping_type")
  case False
  with assms show ?thesis
    by (auto simp: priv_update_style_mapping_def recognised_def ret_def)
next
  case True
  with assms obtain mt vs ps where
    "apply_mvp cy style_name (map_visual_property cy vpn table_column mt vs ps network) s
       = (Inr x, s', calls)"
    by (auto simp: priv_update_style_mapping_def recognised_def raise_def Let_def
        split: if_splits)
  from apply_mvp_calls [OF this] True show ?thesis
    by (auto split: option.splits)
qed

lemma combo_updates_calls:
  assumes "combo_updates cy table_column tcv opacities mapping_type style_name network s
             = (Inr (Some r), s', calls)"
  shows "mapping_writes calls =
           [''NODE_TRANSPARENCY'', ''NODE_BORDER_TRANSPARENCY'', ''NODE_LABEL_TRANSPARENCY'']"
proof -
  from assms [unfolded combo_updates_def] obtain x1 s1 t1 u1 where
    1: "priv_update_style_mapping cy str_int ''NODE_TRANSPARENCY'' table_column tcv opacities
          mapping_type style_name network all_mappings s = (Inr x1, s1, t1)"
    and r1: "and_then (priv_update_style_mapping cy str_int ''NODE_BORDER_TRANSPARENCY''
               table_column tcv opacities mapping_type style_name network all_mappings)
             (\<lambda>_. and_then (priv_update_style_mapping cy str_int ''NODE_LABEL_TRANSPARENCY''
               table_column tcv opacities mapping_type style_name network all_mappings)
               (\<lambda>res. ret res)) s1 = (Inr (Some r), s', u1)"
    and c1: "calls = t1 @ u1"
    by (rule and_then_Inr_E)
  from r1 obtain x2 s2 t2 u2 where
    2: "priv_update_style_mapping cy str_int ''NODE_BORDER_TRANSPARENCY'' table_column tcv
          opacities mapping_type style_name network all_mappings s1 = (Inr x2, s2, t2)"
    and r2: "and_then (priv_update_style_mapping cy str_int ''NODE_LABEL_TRANSPARENCY''
               table_column tcv opacities mapping_type style_name network all_mappings)
               (\<lambda>res. ret res) s2 = (Inr (Some r), s', u2)"
    and c2: "u1 = t2 @ u2"
    by (rule and_then_Inr_E)
  from r2 obtain x3 s3 t3 u3 where
    l3: "priv_update_style_mapping cy str_int ''NODE_LABEL_TRANSPARENCY'' table_column tcv
          opacities mapping_type style_name network all_mappings s2 = (Inr x3, s3, t3)"
    and r3: "ret x3 s3 = (Inr (Some r), s', u3)"
    and c3: "u2 = t3 @ u3"
    by (rule and_then_Inr_E)
  from r3 have "x3 = Some r" "s3 = s'" "u3 = []" by (simp_all add: ret_def)
  with l3 c1 c2 c3 have
    3: "priv_update_style_mapping cy str_int ''NODE_LABEL_TRANSPARENCY'' table_column tcv
          opacities mapping_type style_name network all_mappings s2 = (Inr (Some r), s', t3)"
    and c: "calls = t1 @ t2 @ t3"
    by simp_all
  from priv_update_style_mapping_calls [OF 3] have rec: "recognised mapping_type"
    and w3: "mapping_writes t3 = [visual_prop_name ''NODE_LABEL_TRANSPARENCY'']" by simp_all
  from priv_update_style_mapping_calls [OF 1] rec
  have w1: "mapping_writes t1 = [visual_prop_name ''NODE_TRANSPARENCY'']"
    by (cases x1) simp_all
  from priv_update_style_mapping_calls [OF 2] rec
  have w2: "mapping_writes t2 = [visual_prop_name ''NODE_BORDER_TRANSPARENCY'']"
    by (cases x2) simp_all
  show ?thesis
    unfolding c by (simp only: mapping_writes_append w1 w2 w3 visual_prop_name_examples append.simps)
qed

lemma set_default_calls:
  "set_default cy vp v style_name s = (r, s', calls) \<Longrightarrow> mapping_writes calls = []"
  by (auto simp: set_default_def do_write_def split: prod.splits)

lemma set_node_combo_opacity_mapping_calls:
  assumes "set_node_combo_opacity_mapping cy table_column tcv opacities mapping_type
             default_opacity style_name network s = (Inr (Some r), s', calls)"
  shows "mapping_writes calls =
           [''NODE_TRANSPARENCY'', ''NODE_BORDER_TRANSPARENCY'', ''NODE_LABEL_TRANSPARENCY'']"
proof -
  let ?combo = "combo_updates cy table_column tcv opacities mapping_type style_name network"
  let ?rest = "case default_opacity of
            None \<Rightarrow> ?combo
          | Some d \<Rightarrow>
              if bad_opacity d then ret None
              else
                and_then (set_default cy ''NODE_TRANSPARENCY'' (str_int d) style_name) (\<lambda>_.
                and_then (set_default cy ''NODE_BORDER_TRANSPARENCY'' (str_int d) style_name)
                  (\<lambda>_.
                and_then (set_default cy ''NODE_LABEL_TRANSPARENCY'' (str_int d) style_name)
                  (\<lambda>_. ?combo)))"
  from assms [unfolded set_node_combo_opacity_mapping_def] obtain ex s1 t1 t2 where
    rd: "do_read (table_column_exists cy table_column ''node'' network)
           (TableColumnExists table_column ''node'' network) s = (Inr ex, s1, t1)"
    and rest: "(if \<not> ex then raise column_missing
                else if some_bad_opacity opacities then ret None else ?rest) s1
               = (Inr (Some r), s', t2)"
    and c: "calls = t1 @ t2"
    by (rule and_then_Inr_E)
  from rd have t1: "mapping_writes t1 = []" by (auto simp: do_read_def)
  from rest have rest': "?rest s1 = (Inr (Some r), s', t2)"
    by (auto simp: raise_def ret_def split: if_splits)
  have "\<exists>s0 pre t. ?combo s0 = (Inr (Some r), s', t) \<and> t2 = pre @ t \<and> mapping_writes pre = []"
  proof (cases default_opacity)
    case None
    with rest' have "?combo s1 = (Inr (Some r), s', t2)" by simp
    then show ?thesis by (intro exI [of _ s1] exI [of _ "[]"] exI [of _ t2]) simp
  next
    case (Some d)
    with rest' have d1: "and_then (set_default cy ''NODE_TRANSPARENCY'' (str_int d) style_name)
                (\<lambda>_.
                and_then (set_default cy ''NODE_BORDER_TRANSPARENCY'' (str_int d) style_name)
                  (\<lambda>_.
                and_then (set_default cy ''NODE_LABEL_TRANSPARENCY'' (str_int d) style_name)
                  (\<lambda>_. ?combo))) s1 = (Inr (Some r), s', t2)"
      by (auto simp: ret_def split: if_splits)
    then obtain a1 q1 p1 u1 where
      e1: "set_default cy ''NODE_TRANSPARENCY'' (str_int d) style_name s1 = (Inr a1, q1, p1)"
      and d2: "and_then (set_default cy ''NODE_BORDER_TRANSPARENCY'' (str_int d) style_name)
                  (\<lambda>_.
                and_then (set_default cy ''NODE_LABEL_TRANSPARENCY'' (str_int d) style_name)
                  (\<lambda>_. ?combo)) q1 = (Inr (Some r), s', u1)"
      and c1: "t2 = p1 @ u1"
      by (rule and_then_Inr_E)
    from d2 obtain a2 q2 p2 u2 where
      e2: "set_default cy ''NODE_BORDER_TRANSPARENCY'' (str_int d) style_name q1
             = (Inr a2, q2, p2)"
      and d3: "and_then (set_default cy ''NODE_LABEL_TRANSPARENCY'' (str_int d) style_name)
                  (\<lambda>_. ?combo) q2 = (Inr (Some r), s', u2)"
      and c2: "u1 = p2 @ u2"
      by (rule and_then_Inr_E)
    from d3 obtain a3 q3 p3 u3 where
      e3: "set_default cy ''NODE_LABEL_TRANSPARENCY'' (str_int d) style_name q2
             = (Inr a3, q3, p3)"
      and d4: "?combo q3 = (Inr (Some r), s', u3)"
      and c3: "u2 = p3 @ u3"
      by (rule and_then_Inr_E)
    have "mapping_writes (p1 @ p2 @ p3) = []"
      using set_default_calls [OF e1] set_default_calls [OF e2] set_default_calls [OF e3]
      by simp
    with d4 c1 c2 c3 show ?thesis
      by (intro exI [of _ q3] exI [of _ "p1 @ p2 @ p3"] exI [of _ u3]) simp
  qed
  then obtain s0 pre t where
    u: "?combo s0 = (Inr (Some r), s', t)" and t2: "t2 = pre @ t"
    and p: "mapping_writes pre = []"
    by blast
  from combo_updates_calls [OF u] c t1 t2 p show ?thesis by simp
qed

section \<open>The claims\<close>

text \<open>
  Claim C1. A continuous mapping built from as many property values as column values has
  one waypoint per column value, in input order, and the \<open>lesser\<close>, \<open>equal\<close> and
  \<open>greater\<close> of each waypoint are the property value paired with its column value.
\<close>

theorem continuous_equal_lengths_waypoints:
  assumes "mapping_type = ''c'' \<or> mapping_type = ''continuous''"
    and "length visual_prop_values = length table_column_values"
    and "get_network_suid cy network s = Inr suid"
    and "get_visual_property_names cy s = Inr names"
    and "visual_prop_name visual_prop \<in> set names"
    and "cyrest_get_columns cy (columns_url suid (table_of (visual_prop_name visual_prop))) s
           = Inr cols"
    and "find (\<lambda>col. col_name col = table_column) cols = Some col"
  shows "\<exists>doc pts.
           fst (map_visual_property cy visual_prop table_column mapping_type
                  (Some table_column_values) (Some visual_prop_values) network s) = Inr doc \<and>
           mappingType doc = ''continuous'' \<and> map_cargo doc = None \<and>
           points_cargo doc = Some pts \<and>
           length pts = length table_column_values \<and>
           (\<forall>i < length table_column_values.
              point_value (pts ! i) = table_column_values ! i \<and>
              lesser (pts ! i) = visual_prop_values ! i \<and>
              equal (pts ! i) = visual_prop_values ! i \<and>
              greater (pts ! i) = visual_prop_values ! i)"
  using assms(2)
  by (simp add: map_visual_property_reads [OF assms(3-7)]
      mapping_type_name_continuous [OF assms(1)] construct_map_def continuous_points_equal
      point_of_def)

theorem continuous_equal_lengths_waypoints_witness:
  "\<exists>doc pts.
     fst (map_visual_property demo ''node fill color'' ''score'' ''c''
            (Some [- 2, 0, 2]) (Some [''#0000FF'', ''#FFFFFF'', ''#FF0000''])
            CurrentNetwork demo_start) = Inr doc \<and>
     mappingType doc = ''continuous'' \<and> map_cargo doc = None \<and>
     points_cargo doc = Some pts \<and> length pts = length [- 2, 0, 2 :: int] \<and>
     (\<forall>i < length [- 2, 0, 2 :: int]. point_value (pts ! i) = [- 2, 0, 2] ! i \<and>
        lesser (pts ! i) = [''#0000FF'', ''#FFFFFF'', ''#FF0000''] ! i \<and>
        equal (pts ! i) = [''#0000FF'', ''#FFFFFF'', ''#FF0000''] ! i \<and>
        greater (pts ! i) = [''#0000FF'', ''#FFFFFF'', ''#FF0000''] ! i)"
  using continuous_equal_lengths_waypoints
    [of "''c''" "[''#0000FF'', ''#FFFFFF'', ''#FF0000'']" "[- 2, 0, 2]" demo CurrentNetwork
        demo_start 52 demo_names "''node fill color''" demo_columns "''score''"
        "\<lparr>col_name = ''score'', col_type = ''Double''\<rparr>"]
  by (simp add: demo_reads visual_prop_name_examples columns_url_demo demo_names_def
      demo_columns_def)

text \<open>
  Claim C2. With two extra property values and no column value at all,
  \<^verbatim>\<open>points[0]\<close> is read from an empty list: the call ends in an IndexError instead of
  a document whose \<open>points\<close> has one waypoint per column value (here none). With at least
  one column value the waypoints are as \<open>continuous_points_two_extra\<close> says.
\<close>

theorem two_extra_values_no_columns_IndexError:
  "fst (map_visual_property demo ''node fill color'' ''score'' ''c''
          (Some []) (Some [''#0000FF'', ''#FF0000'']) CurrentNetwork demo_start)
   = Inl IndexError"
  by (simp add: map_visual_property_reads [of demo CurrentNetwork demo_start 52 demo_names _
        demo_columns _ "\<lparr>col_name = ''score'', col_type = ''Double''\<rparr>"]
      demo_reads visual_prop_name_examples columns_url_demo demo_names_def demo_columns_def
      mapping_type_name_continuous construct_map_def continuous_points_two_extra_empty)

text \<open>
  Claim C3. A continuous mapping whose property values are neither as many as the column
  values nor two more yields no document: once the schema reads have answered, the error
  is the CyError of lines 149 to 151.
\<close>

theorem continuous_mismatched_lengths_fail:
  assumes "mapping_type = ''c'' \<or> mapping_type = ''continuous''"
    and "int (length visual_prop_values) - int (length table_column_values) \<noteq> 0"
    and "int (length visual_prop_values) - int (length table_column_values) \<noteq> 2"
  shows "(\<forall>doc. fst (map_visual_property cy visual_prop table_column mapping_type
                  (Some table_column_values) (Some visual_prop_values) network s) \<noteq> Inr doc) \<and>
         (get_network_suid cy network s = Inr suid \<and>
          get_visual_property_names cy s = Inr names \<and>
          visual_prop_name visual_prop \<in> set names \<and>
          cyrest_get_columns cy (columns_url suid (table_of (visual_prop_name visual_prop))) s
            = Inr cols \<and>
          find (\<lambda>col. col_name col = table_column) cols = Some col \<longrightarrow>
          fst (map_visual_property cy visual_prop table_column mapping_type
                 (Some table_column_values) (Some visual_prop_values) network s)
            = Inl mismatched_lengths)"
proof -
  have cm: "construct_map (mapping_type_name mapping_type) table_column ty
              (visual_prop_name visual_prop) (Some table_column_values) (Some visual_prop_values)
            = Inl mismatched_lengths" for ty
    by (simp add: construct_map_def mapping_type_name_continuous [OF assms(1)]
        continuous_points_mismatch [OF assms(2,3)])
  have "fst (map_visual_property cy visual_prop table_column mapping_type
               (Some table_column_values) (Some visual_prop_values) network s) \<noteq> Inr doc" for doc
    using map_visual_property_Inr [of cy visual_prop table_column mapping_type
        "Some table_column_values" "Some visual_prop_values" network s doc] cm
    by auto
  moreover have "fst (map_visual_property cy visual_prop table_column mapping_type
                 (Some table_column_values) (Some visual_prop_values) network s)
            = Inl mismatched_lengths"
    if "get_network_suid cy network s = Inr suid"
      "get_visual_property_names cy s = Inr names"
      "visual_prop_name visual_prop \<in> set names"
      "cyrest_get_columns cy (columns_url suid (table_of (visual_prop_name visual_prop))) s
            = Inr cols"
      "find (\<lambda>col. col_name col = table_column) cols = Some col"
    by (simp add: map_visual_property_reads [OF that] cm)
  ultimately show ?thesis by blast
qed

theorem continuous_mismatched_lengths_fail_witness:
  "(\<forall>doc. fst (map_visual_property demo ''node fill color'' ''score'' ''continuous''
             (Some [1, 2, 3]) (Some [''#0000FF'', ''#FFFFFF'']) CurrentNetwork demo_start)
           \<noteq> Inr doc) \<and>
   fst (map_visual_property demo ''node fill color'' ''score'' ''continuous''
          (Some [1, 2, 3]) (Some [''#0000FF'', ''#FFFFFF'']) CurrentNetwork demo_start)
     = Inl mismatched_lengths"
  using continuous_mismatched_lengths_fail
    [of "''continuous''" "[''#0000FF'', ''#FFFFFF'']" "[1, 2, 3]" demo "''node fill color''"
        "''score''" CurrentNetwork demo_start 52 demo_names demo_columns
        "\<lparr>col_name = ''score'', col_type = ''Double''\<rparr>"]
  by (simp add: demo_reads visual_prop_name_examples columns_url_demo demo_names_def
      demo_columns_def)

text \<open>
  Claim C4. A discrete mapping pairs \<open>table_column_values ! i\<close> with
  \<open>visual_prop_values ! i\<close> for every \<open>i\<close> below the length of the shorter list, in input
  order, and raises nothing when the lengths differ: the pairs beyond the shorter list are
  dropped.
\<close>

theorem discrete_pairs:
  assumes "mapping_type = ''d'' \<or> mapping_type = ''discrete''"
    and "get_network_suid cy network s = Inr suid"
    and "get_visual_property_names cy s = Inr names"
    and "visual_prop_name visual_prop \<in> set names"
    and "cyrest_get_columns cy (columns_url suid (table_of (visual_prop_name visual_prop))) s
           = Inr cols"
    and "find (\<lambda>col. col_name col = table_column) cols = Some col"
  shows "\<exists>doc entries.
           fst (map_visual_property cy visual_prop table_column mapping_type
                  (Some table_column_values) (Some visual_prop_values) network s) = Inr doc \<and>
           mappingType doc = ''discrete'' \<and> points_cargo doc = None \<and>
           map_cargo doc = Some entries \<and>
           length entries = min (length table_column_values) (length visual_prop_values) \<and>
           (\<forall>i < min (length table_column_values) (length visual_prop_values).
              key (entries ! i) = table_column_values ! i \<and>
              entry_value (entries ! i) = visual_prop_values ! i)"
  by (simp add: map_visual_property_reads [OF assms(2-6)]
      mapping_type_name_discrete [OF assms(1)] construct_map_def entry_of_def)

theorem discrete_pairs_witness:
  "\<exists>doc entries.
     fst (map_visual_property demo ''node shape'' ''degree'' ''d''
            (Some [1, 2, 3]) (Some [''ellipse'', ''rectangle'']) CurrentNetwork demo_start)
       = Inr doc \<and>
     mappingType doc = ''discrete'' \<and> points_cargo doc = None \<and>
     map_cargo doc = Some entries \<and>
     length entries = min (length [1, 2, 3 :: int]) (length [''ellipse'', ''rectangle'']) \<and>
     (\<forall>i < min (length [1, 2, 3 :: int]) (length [''ellipse'', ''rectangle'']).
        key (entries ! i) = [1, 2, 3] ! i \<and>
        entry_value (entries ! i) = [''ellipse'', ''rectangle''] ! i)"
  using discrete_pairs
    [of "''d''" demo CurrentNetwork demo_start 52 demo_names "''node shape''" demo_columns
        "''degree''" "\<lparr>col_name = ''degree'', col_type = ''Integer''\<rparr>"
        "[1, 2, 3]" "[''ellipse'', ''rectangle'']"]
  by (simp add: demo_reads visual_prop_name_examples columns_url_demo demo_names_def
      demo_columns_def)

text \<open>
  Claim C10. A mapping type that is none of \<open>c\<close>, \<open>d\<close>, \<open>p\<close>, \<open>continuous\<close>,
  \<open>discrete\<close>, \<open>passthrough\<close> is not rejected: it is copied into \<open>mappingType\<close> and the
  document has neither a \<open>map\<close> nor a \<open>points\<close> entry, whatever the value lists are.
\<close>

theorem unrecognised_mapping_type_passes:
  assumes "mapping_type \<notin> {''c'', ''d'', ''p'', ''continuous'', ''discrete'', ''passthrough''}"
    and "get_network_suid cy network s = Inr suid"
    and "get_visual_property_names cy s = Inr names"
    and "visual_prop_name visual_prop \<in> set names"
    and "cyrest_get_columns cy (columns_url suid (table_of (visual_prop_name visual_prop))) s
           = Inr cols"
    and "find (\<lambda>col. col_name col = table_column) cols = Some col"
  shows "fst (map_visual_property cy visual_prop table_column mapping_type
                table_column_values visual_prop_values network s)
         = Inr \<lparr>mappingType = mapping_type, mappingColumn = table_column,
                mappingColumnType = col_type col,
                visualProperty = visual_prop_name visual_prop,
                map_cargo = None, points_cargo = None\<rparr>"
  using assms(1)
  by (simp add: map_visual_property_reads [OF assms(2-6)]
      mapping_type_name_other [OF assms(1)] construct_map_def)

theorem unrecognised_mapping_type_passes_witness:
  "fst (map_visual_property demo ''node label'' ''score'' ''gradient''
          (Some [1, 2]) (Some [''a'']) CurrentNetwork demo_start)
   = Inr \<lparr>mappingType = ''gradient'', mappingColumn = ''score'',
          mappingColumnType = ''Double'', visualProperty = ''NODE_LABEL'',
          map_cargo = None, points_cargo = None\<rparr>"
  using unrecognised_mapping_type_passes
    [of "''gradient''" demo CurrentNetwork demo_start 52 demo_names "''node label''"
        demo_columns "''score''" "\<lparr>col_name = ''score'', col_type = ''Double''\<rparr>"
        "Some [1, 2]" "Some [''a'']"]
  by (simp add: demo_reads visual_prop_name_examples columns_url_demo demo_names_def
      demo_columns_def)

subsection \<open>Validation of the property name and the column\<close>

lemma continuous_points_errors:
  "continuous_points cs ps = Inl e \<Longrightarrow> e = IndexError \<or> e = mismatched_lengths"
  by (auto simp: continuous_points_def getitem_def Let_def split: if_splits option.splits sum.splits)

lemma construct_map_errors:
  "construct_map mtn table_column ty vpn tcv vpv = Inl e \<Longrightarrow>
   e = TypeError \<or> e = IndexError \<or> e = mismatched_lengths"
  by (auto simp: construct_map_def Let_def dest: continuous_points_errors
      split: if_splits option.splits sum.splits)

lemma validation_errors_distinct:
  "unknown_property n \<noteq> TypeError" "unknown_property n \<noteq> IndexError"
  "unknown_property n \<noteq> mismatched_lengths"
  "unknown_column c t \<noteq> TypeError" "unknown_column c t \<noteq> IndexError"
  "unknown_column c t \<noteq> mismatched_lengths"
  by (simp_all add: unknown_property_def unknown_column_def mismatched_lengths_def)

lemma map_visual_property_unknown_property:
  assumes "get_network_suid cy network s = Inr suid"
    and "get_visual_property_names cy s = Inr names"
    and "visual_prop_name visual_prop \<notin> set names"
  shows "map_visual_property cy visual_prop table_column mapping_type tcv vpv network s =
          (Inl (unknown_property (visual_prop_name visual_prop)), s,
           [GetNetworkSuid network, GetVisualPropertyNames])"
  using assms
  by (simp add: map_visual_property_def and_then_def do_read_def raise_def)

lemma map_visual_property_unknown_column:
  assumes "get_network_suid cy network s = Inr suid"
    and "get_visual_property_names cy s = Inr names"
    and "visual_prop_name visual_prop \<in> set names"
    and "cyrest_get_columns cy (columns_url suid (table_of (visual_prop_name visual_prop))) s = Inr cols"
    and "find (\<lambda>col. col_name col = table_column) cols = None"
  shows "map_visual_property cy visual_prop table_column mapping_type tcv vpv network s =
          (Inl (unknown_column table_column (table_of (visual_prop_name visual_prop))), s,
           [GetNetworkSuid network, GetVisualPropertyNames,
            CyrestGet (columns_url suid (table_of (visual_prop_name visual_prop)))])"
  using assms
  by (simp add: map_visual_property_def and_then_def do_read_def raise_def Let_def)

lemma visual_prop_name_alias:
  "visual_prop_name visual_prop =
     (let n = upper (re_sub_spaces visual_prop)
      in if n = ''EDGE_COLOR'' then ''EDGE_UNSELECTED_PAINT''
         else if n = ''EDGE_THICKNESS'' then ''EDGE_WIDTH''
         else if n = ''NODE_BORDER_COLOR'' then ''NODE_BORDER_PAINT''
         else if n = ''NODE_BORDER_LINE_TYPE'' then ''NODE_BORDER_STROKE''
         else n)"
  by (simp add: visual_prop_name_def PROPERTY_NAMES_def Let_def)

lemma normalised_examples:
  "visual_prop_name ''node colour'' = ''NODE_COLOUR''"
  "visual_prop_name ''edge color'' = ''EDGE_UNSELECTED_PAINT''"
  "visual_prop_name ''Network  Title'' = ''NETWORK_TITLE''"
  "visual_prop_name (''node'' @ [CHR 0xA0] @ ''label'') = ''NODE_LABEL''"
  by code_simp+

lemma not_isl_Inr: "\<not> isl x \<Longrightarrow> \<exists>y. x = Inr y"
  by (cases x) simp_all

text \<open>
  Claim C5. The property name is normalised: whitespace runs become underscores, the
  result is put in upper case, and the four aliases (\<open>EDGE_COLOR\<close> for
  \<open>EDGE_UNSELECTED_PAINT\<close> and the others) are replaced. When the normalised name is not
  among the property names, \<^verbatim>\<open>map_visual_property\<close> raises before it reads any column.
  When it is, the columns are read from the table \<open>default\<close> followed by the lower-case
  prefix of the name (up to its first underscore); then one of the two validation errors
  is raised exactly when the column is not in that table, and a document that is returned
  carries the normalised name and the declared type of the column.
\<close>

theorem validation_of_property_and_column:
  assumes "upper_representable visual_prop"
    and "get_network_suid cy network s = Inr suid"
    and "get_visual_property_names cy s = Inr names"
  shows
    "visual_prop_name visual_prop =
       (if upper (re_sub_spaces visual_prop) = ''EDGE_COLOR'' then ''EDGE_UNSELECTED_PAINT''
        else if upper (re_sub_spaces visual_prop) = ''EDGE_THICKNESS'' then ''EDGE_WIDTH''
        else if upper (re_sub_spaces visual_prop) = ''NODE_BORDER_COLOR''
        then ''NODE_BORDER_PAINT''
        else if upper (re_sub_spaces visual_prop) = ''NODE_BORDER_LINE_TYPE''
        then ''NODE_BORDER_STROKE''
        else upper (re_sub_spaces visual_prop)) \<and>
     (visual_prop_name visual_prop \<notin> set names \<longrightarrow>
        map_visual_property cy visual_prop table_column mapping_type
            table_column_values visual_prop_values network s
          = (Inl (unknown_property (visual_prop_name visual_prop)), s,
             [GetNetworkSuid network, GetVisualPropertyNames])) \<and>
     (visual_prop_name visual_prop \<in> set names \<and>
      cyrest_get_columns cy
        (''networks/'' @ str_int suid @ ''/tables/default'' @
           lower (takeWhile (\<lambda>c. c \<noteq> CHR ''_'') (visual_prop_name visual_prop)) @ ''/columns'') s
        = Inr cols \<longrightarrow>
        snd (snd (map_visual_property cy visual_prop table_column mapping_type
                    table_column_values visual_prop_values network s))
          = [GetNetworkSuid network, GetVisualPropertyNames,
             CyrestGet (''networks/'' @ str_int suid @ ''/tables/default'' @
               lower (takeWhile (\<lambda>c. c \<noteq> CHR ''_'') (visual_prop_name visual_prop)) @
               ''/columns'')] \<and>
        (fst (map_visual_property cy visual_prop table_column mapping_type
                 table_column_values visual_prop_values network s)
            \<in> {Inl (unknown_property (visual_prop_name visual_prop)),
                Inl (unknown_column table_column
                       (''default'' @ lower (takeWhile (\<lambda>c. c \<noteq> CHR ''_'')
                                              (visual_prop_name visual_prop))))}
          \<longleftrightarrow> table_column \<notin> col_name ` set cols) \<and>
        (table_column \<notin> col_name ` set cols \<longrightarrow>
           fst (map_visual_property cy visual_prop table_column mapping_type
                  table_column_values visual_prop_values network s)
             = Inl (unknown_column table_column
                      (''default'' @ lower (takeWhile (\<lambda>c. c \<noteq> CHR ''_'')
                                             (visual_prop_name visual_prop))))) \<and>
        (\<forall>doc. fst (map_visual_property cy visual_prop table_column mapping_type
                       table_column_values visual_prop_values network s) = Inr doc \<longrightarrow>
           visualProperty doc = visual_prop_name visual_prop \<and>
           mappingColumn doc = table_column \<and>
           (\<exists>col. find (\<lambda>col. col_name col = table_column) cols = Some col \<and>
                  mappingColumnType doc = col_type col)))"
    (is "?norm \<and> (?unknown \<longrightarrow> ?U) \<and> (?known \<and> ?read \<longrightarrow> ?calls \<and> ?iff \<and> ?C \<and> ?D)")
proof -
  have a: ?norm
    using visual_prop_name_alias [of visual_prop] by (simp add: Let_def)
  have u: "?unknown \<longrightarrow> ?U"
    using map_visual_property_unknown_property [OF assms(2,3)] by blast
  have k: "?known \<and> ?read \<longrightarrow> ?calls \<and> ?iff \<and> ?C \<and> ?D"
  proof
  assume kr: "?known \<and> ?read"
  then have known: "visual_prop_name visual_prop \<in> set names"
    and read: "cyrest_get_columns cy
        (columns_url suid (table_of (visual_prop_name visual_prop))) s = Inr cols"
    by (simp_all add: columns_url_def table_of_def)
  let ?R = "map_visual_property cy visual_prop table_column mapping_type
              table_column_values visual_prop_values network s"
  let ?P = "unknown_property (visual_prop_name visual_prop)"
  let ?Q = "unknown_column table_column (table_of (visual_prop_name visual_prop))"
  have all: "snd (snd ?R) = [GetNetworkSuid network, GetVisualPropertyNames,
             CyrestGet (columns_url suid (table_of (visual_prop_name visual_prop)))] \<and>
        (fst ?R \<in> {Inl ?P, Inl ?Q} \<longleftrightarrow> table_column \<notin> col_name ` set cols) \<and>
        (table_column \<notin> col_name ` set cols \<longrightarrow> fst ?R = Inl ?Q) \<and>
        (\<forall>doc. fst ?R = Inr doc \<longrightarrow>
           visualProperty doc = visual_prop_name visual_prop \<and>
           mappingColumn doc = table_column \<and>
           (\<exists>col. find (\<lambda>col. col_name col = table_column) cols = Some col \<and>
                  mappingColumnType doc = col_type col))"
  proof (cases "find (\<lambda>col. col_name col = table_column) cols")
    case None
    then have "table_column \<notin> col_name ` set cols"
      by (auto simp: find_None_iff)
    then show ?thesis
      by (simp add: map_visual_property_unknown_column [OF assms(2,3) known read None])
  next
    case (Some col)
    then have present: "table_column \<in> col_name ` set cols"
      by (auto simp: find_Some_iff image_iff)
    have R: "fst ?R = construct_map (mapping_type_name mapping_type) table_column (col_type col)
                 (visual_prop_name visual_prop) table_column_values visual_prop_values"
      and calls: "snd (snd ?R) = [GetNetworkSuid network, GetVisualPropertyNames,
             CyrestGet (columns_url suid (table_of (visual_prop_name visual_prop)))]"
      by (simp_all add: map_visual_property_reads [OF assms(2,3) known read Some])
    have no: "fst ?R \<noteq> Inl ?P" "fst ?R \<noteq> Inl ?Q"
      using construct_map_errors [of "mapping_type_name mapping_type" table_column "col_type col"
          "visual_prop_name visual_prop" table_column_values visual_prop_values]
        validation_errors_distinct
      unfolding R by metis+
    have doc: "visualProperty doc = visual_prop_name visual_prop \<and>
            mappingColumn doc = table_column \<and> mappingColumnType doc = col_type col"
      if "fst ?R = Inr doc" for doc
      using that unfolding R
      by (auto simp: construct_map_def Let_def split: if_splits option.splits sum.splits)
    show ?thesis
      using present no doc Some calls by auto
  qed
  from all show "?calls \<and> ?iff \<and> ?C \<and> ?D"
    by (simp add: columns_url_def table_of_def)
  qed
  from a u k show ?thesis by (intro conjI)
qed

theorem validation_of_property_and_column_witness:
  "map_visual_property demo ''node colour'' ''score'' ''p'' (Some []) (Some [])
       CurrentNetwork demo_start
     = (Inl (unknown_property ''NODE_COLOUR''), demo_start,
        [GetNetworkSuid CurrentNetwork, GetVisualPropertyNames]) \<and>
   (\<exists>doc. fst (map_visual_property demo ''edge color'' ''interaction'' ''p'' (Some [])
                 (Some []) CurrentNetwork demo_start) = Inr doc \<and>
      visualProperty doc = ''EDGE_UNSELECTED_PAINT'' \<and> mappingColumn doc = ''interaction'' \<and>
      mappingColumnType doc = ''String'') \<and>
   snd (snd (map_visual_property demo ''edge color'' ''interaction'' ''p'' (Some [])
               (Some []) CurrentNetwork demo_start))
     = [GetNetworkSuid CurrentNetwork, GetVisualPropertyNames,
        CyrestGet ''networks/52/tables/defaultedge/columns''] \<and>
   fst (map_visual_property demo ''edge color'' ''score'' ''p'' (Some []) (Some [])
          CurrentNetwork demo_start)
     = Inl (unknown_column ''score'' ''defaultedge'') \<and>
   (\<exists>doc. fst (map_visual_property demo ''Network  Title'' ''name'' ''p'' (Some [])
                 (Some []) CurrentNetwork demo_start) = Inr doc \<and>
      visualProperty doc = ''NETWORK_TITLE'' \<and> mappingColumnType doc = ''String'') \<and>
   (\<exists>doc. fst (map_visual_property demo (''node'' @ [CHR 0xA0] @ ''label'') ''degree'' ''p''
                 (Some []) (Some []) CurrentNetwork demo_start) = Inr doc \<and>
      visualProperty doc = ''NODE_LABEL'' \<and> mappingColumnType doc = ''Integer'')"
proof -
  note r = demo_reads(1) demo_reads(2)
  \<comment> \<open>an unknown name\<close>
  have rep1: "upper_representable ''node colour''" by code_simp
  have unk: "visual_prop_name ''node colour'' \<notin> set demo_names" by code_simp
  from validation_of_property_and_column
      [of "''node colour''" demo CurrentNetwork demo_start 52 demo_names "''score''" "''p''"
          "Some []" "Some []" demo_columns, OF rep1 r,
       THEN conjunct2, THEN conjunct1, THEN mp, OF unk]
  have 1: "map_visual_property demo ''node colour'' ''score'' ''p'' (Some []) (Some [])
       CurrentNetwork demo_start
     = (Inl (unknown_property ''NODE_COLOUR''), demo_start,
        [GetNetworkSuid CurrentNetwork, GetVisualPropertyNames])"
    by (simp only: normalised_examples)
  \<comment> \<open>an alias, and the edge table\<close>
  have rep2: "upper_representable ''edge color''" by code_simp
  have known2: "visual_prop_name ''edge color'' \<in> set demo_names" by code_simp
  have read2: "cyrest_get_columns demo
        (''networks/'' @ str_int 52 @ ''/tables/default'' @
           lower (takeWhile (\<lambda>c. c \<noteq> CHR ''_'') (visual_prop_name ''edge color'')) @
           ''/columns'') demo_start = Inr demo_edge_columns" by code_simp
  have url2: "''networks/'' @ str_int 52 @ ''/tables/default'' @
           lower (takeWhile (\<lambda>c. c \<noteq> CHR ''_'') (visual_prop_name ''edge color'')) @
           ''/columns'' = ''networks/52/tables/defaultedge/columns''" by code_simp
  have table2: "''default'' @
           lower (takeWhile (\<lambda>c. c \<noteq> CHR ''_'') (visual_prop_name ''edge color''))
           = ''defaultedge''" by code_simp
  note e = validation_of_property_and_column
      [of "''edge color''" demo CurrentNetwork demo_start 52 demo_names "''interaction''"
          "''p''" "Some []" "Some []" demo_edge_columns, OF rep2 r,
       THEN conjunct2, THEN conjunct2, THEN mp, OF conjI [OF known2 read2]]
  have "\<not> isl (fst (map_visual_property demo ''edge color'' ''interaction'' ''p'' (Some [])
                 (Some []) CurrentNetwork demo_start))" by code_simp
  then obtain doc2 where ev2: "fst (map_visual_property demo ''edge color'' ''interaction''
                 ''p'' (Some []) (Some []) CurrentNetwork demo_start) = Inr doc2"
    using not_isl_Inr by blast
  from e [THEN conjunct2, THEN conjunct2, THEN conjunct2, THEN spec, THEN mp, OF ev2]
  have "visualProperty doc2 = ''EDGE_UNSELECTED_PAINT'' \<and> mappingColumn doc2 = ''interaction'' \<and>
      mappingColumnType doc2 = ''String''"
    by (auto simp: normalised_examples demo_edge_columns_def)
  with ev2 have 2: "\<exists>doc. fst (map_visual_property demo ''edge color'' ''interaction'' ''p''
                 (Some []) (Some []) CurrentNetwork demo_start) = Inr doc \<and>
      visualProperty doc = ''EDGE_UNSELECTED_PAINT'' \<and> mappingColumn doc = ''interaction'' \<and>
      mappingColumnType doc = ''String''"
    by blast
  from e [THEN conjunct1]
  have 3: "snd (snd (map_visual_property demo ''edge color'' ''interaction'' ''p'' (Some [])
               (Some []) CurrentNetwork demo_start))
     = [GetNetworkSuid CurrentNetwork, GetVisualPropertyNames,
        CyrestGet ''networks/52/tables/defaultedge/columns'']"
    by (simp only: url2)
  have absent: "''score'' \<notin> col_name ` set demo_edge_columns"
    by (simp add: demo_edge_columns_def)
  from validation_of_property_and_column
      [of "''edge color''" demo CurrentNetwork demo_start 52 demo_names "''score''"
          "''p''" "Some []" "Some []" demo_edge_columns, OF rep2 r,
       THEN conjunct2, THEN conjunct2, THEN mp, OF conjI [OF known2 read2],
       THEN conjunct2, THEN conjunct2, THEN conjunct1, THEN mp, OF absent]
  have 4: "fst (map_visual_property demo ''edge color'' ''score'' ''p'' (Some []) (Some [])
          CurrentNetwork demo_start)
     = Inl (unknown_column ''score'' ''defaultedge'')"
    by (simp only: table2)
  \<comment> \<open>the network table\<close>
  have rep5: "upper_representable ''Network  Title''" by code_simp
  have known5: "visual_prop_name ''Network  Title'' \<in> set demo_names" by code_simp
  have read5: "cyrest_get_columns demo
        (''networks/'' @ str_int 52 @ ''/tables/default'' @
           lower (takeWhile (\<lambda>c. c \<noteq> CHR ''_'') (visual_prop_name ''Network  Title'')) @
           ''/columns'') demo_start = Inr demo_network_columns" by code_simp
  have "\<not> isl (fst (map_visual_property demo ''Network  Title'' ''name'' ''p'' (Some [])
                 (Some []) CurrentNetwork demo_start))" by code_simp
  then obtain doc5 where ev5: "fst (map_visual_property demo ''Network  Title'' ''name''
                 ''p'' (Some []) (Some []) CurrentNetwork demo_start) = Inr doc5"
    using not_isl_Inr by blast
  from validation_of_property_and_column
      [of "''Network  Title''" demo CurrentNetwork demo_start 52 demo_names "''name''"
          "''p''" "Some []" "Some []" demo_network_columns, OF rep5 r,
       THEN conjunct2, THEN conjunct2, THEN mp, OF conjI [OF known5 read5],
       THEN conjunct2, THEN conjunct2, THEN conjunct2, THEN spec, THEN mp, OF ev5]
  have "visualProperty doc5 = ''NETWORK_TITLE'' \<and> mappingColumnType doc5 = ''String''"
    by (auto simp: normalised_examples demo_network_columns_def)
  with ev5 have 5: "\<exists>doc. fst (map_visual_property demo ''Network  Title'' ''name'' ''p''
                 (Some []) (Some []) CurrentNetwork demo_start) = Inr doc \<and>
      visualProperty doc = ''NETWORK_TITLE'' \<and> mappingColumnType doc = ''String''"
    by blast
  \<comment> \<open>a no-break space\<close>
  have rep6: "upper_representable (''node'' @ [CHR 0xA0] @ ''label'')" by code_simp
  have known6: "visual_prop_name (''node'' @ [CHR 0xA0] @ ''label'') \<in> set demo_names"
    by code_simp
  have read6: "cyrest_get_columns demo
        (''networks/'' @ str_int 52 @ ''/tables/default'' @
           lower (takeWhile (\<lambda>c. c \<noteq> CHR ''_'')
                    (visual_prop_name (''node'' @ [CHR 0xA0] @ ''label''))) @
           ''/columns'') demo_start = Inr demo_columns" by code_simp
  have "\<not> isl (fst (map_visual_property demo (''node'' @ [CHR 0xA0] @ ''label'') ''degree''
                 ''p'' (Some []) (Some []) CurrentNetwork demo_start))" by code_simp
  then obtain doc6 where ev6: "fst (map_visual_property demo
                 (''node'' @ [CHR 0xA0] @ ''label'') ''degree''
                 ''p'' (Some []) (Some []) CurrentNetwork demo_start) = Inr doc6"
    using not_isl_Inr by blast
  from validation_of_property_and_column
      [of "''node'' @ [CHR 0xA0] @ ''label''" demo CurrentNetwork demo_start 52 demo_names
          "''degree''" "''p''" "Some []" "Some []" demo_columns, OF rep6 r,
       THEN conjunct2, THEN conjunct2, THEN mp, OF conjI [OF known6 read6],
       THEN conjunct2, THEN conjunct2, THEN conjunct2, THEN spec, THEN mp, OF ev6]
  have "visualProperty doc6 = ''NODE_LABEL'' \<and> mappingColumnType doc6 = ''Integer''"
    by (simp only: normalised_examples) (auto simp: demo_columns_def)
  with ev6 have 6: "\<exists>doc. fst (map_visual_property demo (''node'' @ [CHR 0xA0] @ ''label'')
                 ''degree'' ''p'' (Some []) (Some []) CurrentNetwork demo_start) = Inr doc \<and>
      visualProperty doc = ''NODE_LABEL'' \<and> mappingColumnType doc = ''Integer''"
    by blast
  from 1 2 3 4 5 6 show ?thesis by (intro conjI)
qed

lemma demo_mappings_read:
  "cyrest_get_mappings demo (mappings_url ''default'') s = Inr (style_mappings s)"
  "cyrest_get_mappings demo (mappings_url ''default'') \<lparr>style_mappings = ms, budget = b\<rparr>
     = Inr ms"
  by (simp_all add: demo_def mappings_url_def)

lemma demo_column_exists:
  "table_column_exists demo ''score'' ''node'' network s = Inr True"
  "table_column_exists demo ''weight'' ''node'' network s = Inr False"
  by (simp_all add: demo_def demo_columns_def)

lemma styles_app_read:
  "cyrest_get_mappings styles_app (''styles/'' @ ''galFiltered Style'' @ ''/mappings'')
     [(''default'', ms), (''galFiltered Style'', ms')] = Inr ms'"
  by (simp add: styles_app_def)

text \<open>
  Claim C6. Applying a mapping to a named style whose mapping list
  (\<^verbatim>\<open>GET styles/{style}/mappings\<close>) has been read: if the visual property of the
  mapping is in the list, the mapping is PUT to \<^verbatim>\<open>styles/{style}/mappings/{property}\<close>,
  otherwise it is POSTed to \<^verbatim>\<open>styles/{style}/mappings\<close>; either way the read is
  followed by exactly one write, whose answer and remote state are the result.
\<close>

theorem update_style_mapping_put_or_post:
  assumes "cyrest_get_mappings cy (''styles/'' @ style_name @ ''/mappings'') s = Inr res"
  shows "update_style_mapping cy style_name mapping s =
           (if visualProperty mapping \<in> set (map visualProperty res)
            then (fst (cyrest_put cy
                         (''styles/'' @ style_name @ ''/mappings/'' @ visualProperty mapping)
                         [mapping] s),
                  snd (cyrest_put cy
                         (''styles/'' @ style_name @ ''/mappings/'' @ visualProperty mapping)
                         [mapping] s),
                  [CyrestGet (''styles/'' @ style_name @ ''/mappings''),
                   CyrestPut (''styles/'' @ style_name @ ''/mappings/'' @ visualProperty mapping)
                     [mapping]])
            else (fst (cyrest_post cy (''styles/'' @ style_name @ ''/mappings'') [mapping] s),
                  snd (cyrest_post cy (''styles/'' @ style_name @ ''/mappings'') [mapping] s),
                  [CyrestGet (''styles/'' @ style_name @ ''/mappings''),
                   CyrestPost (''styles/'' @ style_name @ ''/mappings'') [mapping]])) \<and>
         length (filter is_write
                   (snd (snd (update_style_mapping cy style_name mapping s)))) = 1"
  using assms
  by (simp add: update_style_mapping_def mappings_url_def and_then_def do_read_def
      do_write_def Let_def split: prod.split)

theorem update_style_mapping_put_or_post_witness:
  "update_style_mapping styles_app ''galFiltered Style'' demo_label
       [(''default'', []), (''galFiltered Style'', [])] =
     (Inr [], [(''default'', []), (''galFiltered Style'', [demo_label])],
      [CyrestGet ''styles/galFiltered Style/mappings'',
       CyrestPost ''styles/galFiltered Style/mappings'' [demo_label]]) \<and>
   update_style_mapping styles_app ''galFiltered Style'' demo_label
       [(''default'', []), (''galFiltered Style'', [demo_label])] =
     (Inr [], [(''default'', []), (''galFiltered Style'', [demo_label])],
      [CyrestGet ''styles/galFiltered Style/mappings'',
       CyrestPut ''styles/galFiltered Style/mappings/NODE_LABEL'' [demo_label]])"
  using update_style_mapping_put_or_post
      [of styles_app "''galFiltered Style''" "[(''default'', []), (''galFiltered Style'', [])]"
          "[]" demo_label, OF styles_app_read]
    update_style_mapping_put_or_post
      [of styles_app "''galFiltered Style''"
          "[(''default'', []), (''galFiltered Style'', [demo_label])]"
          "[demo_label]" demo_label, OF styles_app_read]
  by (simp add: styles_app_def styles_write_def addressed_def demo_label_def)

text \<open>
  Claim C7. Deleting the mapping of a visual property that is not in the mapping list of
  the style returns \<^verbatim>\<open>None\<close>, raises nothing and issues no write: the only call is the
  read of the list and the remote state stays as it was. Doing it twice in a row gives
  \<^verbatim>\<open>None\<close> both times.
\<close>

theorem delete_absent_mapping:
  assumes "cyrest_get_mappings cy (mappings_url style_name) s = Inr res"
    and "visual_prop \<notin> set (map visualProperty res)"
  shows "delete_style_mapping cy style_name visual_prop s
           = (Inr None, s, [CyrestGet (mappings_url style_name)]) \<and>
         and_then (delete_style_mapping cy style_name visual_prop)
           (\<lambda>_. delete_style_mapping cy style_name visual_prop) s
           = (Inr None, s, [CyrestGet (mappings_url style_name),
                            CyrestGet (mappings_url style_name)])"
  using assms
  by (simp add: delete_style_mapping_def and_then_def do_read_def ret_def Let_def)

theorem delete_absent_mapping_witness:
  "delete_style_mapping demo ''default'' ''NODE_SHAPE''
       \<lparr>style_mappings = [demo_label], budget = 9\<rparr>
     = (Inr None, \<lparr>style_mappings = [demo_label], budget = 9\<rparr>,
        [CyrestGet ''styles/default/mappings'']) \<and>
   and_then (delete_style_mapping demo ''default'' ''NODE_SHAPE'')
       (\<lambda>_. delete_style_mapping demo ''default'' ''NODE_SHAPE'')
       \<lparr>style_mappings = [demo_label], budget = 9\<rparr>
     = (Inr None, \<lparr>style_mappings = [demo_label], budget = 9\<rparr>,
        [CyrestGet ''styles/default/mappings'', CyrestGet ''styles/default/mappings''])"
  using delete_absent_mapping
      [of demo "''default''" "\<lparr>style_mappings = [demo_label], budget = 9\<rparr>"
          "[demo_label]" "''NODE_SHAPE''", OF demo_mappings_read(2)]
  by (simp add: mappings_url_def demo_label_def)

text \<open>
  Claim C9, as the code has it. The three opacity functions first check that the column
  exists and raise when it does not. When it exists and an opacity, or the default opacity
  that was supplied, is outside 0 to 255, they return \<^verbatim>\<open>None\<close> and the column check is
  the only call made: no mapping is built, no default is set and nothing is written.
\<close>

theorem opacity_out_of_range:
  assumes "table_column_exists cy table_column ''node'' network s = Inr True"
    and "some_bad_opacity opacities \<or> (\<exists>d. default_opacity = Some d \<and> bad_opacity d)"
  shows "set_node_border_opacity_mapping cy table_column table_column_values opacities
           mapping_type default_opacity style_name network s
           = (Inr None, s, [TableColumnExists table_column ''node'' network]) \<and>
         set_node_fill_opacity_mapping cy table_column table_column_values opacities
           mapping_type default_opacity style_name network s
           = (Inr None, s, [TableColumnExists table_column ''node'' network]) \<and>
         set_node_combo_opacity_mapping cy table_column table_column_values opacities
           mapping_type default_opacity style_name network s
           = (Inr None, s, [TableColumnExists table_column ''node'' network])"
  using assms
  by (auto simp: set_node_border_opacity_mapping_def set_node_fill_opacity_mapping_def
      set_node_combo_opacity_mapping_def and_then_def do_read_def ret_def)

theorem opacity_out_of_range_witness:
  "set_node_border_opacity_mapping demo ''score'' (Some [1, 16]) (Some [50, 300]) ''c'' None
       ''default'' CurrentNetwork demo_start
     = (Inr None, demo_start, [TableColumnExists ''score'' ''node'' CurrentNetwork]) \<and>
   set_node_combo_opacity_mapping demo ''score'' (Some [1, 16]) (Some [50, 100]) ''c''
       (Some (- 1)) ''default'' CurrentNetwork demo_start
     = (Inr None, demo_start, [TableColumnExists ''score'' ''node'' CurrentNetwork])"
  using opacity_out_of_range
      [of demo "''score''" CurrentNetwork demo_start "Some [50, 300]" None "Some [1, 16]"
          "''c''" "''default''", OF demo_column_exists(1)]
    opacity_out_of_range
      [of demo "''score''" CurrentNetwork demo_start "Some [50, 100]" "Some (- 1)"
          "Some [1, 16]" "''c''" "''default''", OF demo_column_exists(1)]
  by (simp add: some_bad_opacity_def bad_opacity_def)

text \<open>
  Claim C9 as it is stated fails: with an opacity of 300 and a column that the node table
  does not have, \<^verbatim>\<open>set_node_border_opacity_mapping\<close> raises the CyError of line 386.
\<close>

theorem missing_column_raises_before_range_check:
  "some_bad_opacity (Some [300]) \<and>
   set_node_border_opacity_mapping demo ''weight'' (Some [1]) (Some [300]) ''c'' None
       ''default'' CurrentNetwork demo_start
     = (Inl column_missing, demo_start, [TableColumnExists ''weight'' ''node'' CurrentNetwork])"
  by (simp add: set_node_border_opacity_mapping_def and_then_def do_read_def raise_def
      demo_column_exists some_bad_opacity_def bad_opacity_def)

lemma demo_opacities_in_range: "\<not> some_bad_opacity (Some [50, 100])"
  by (simp add: some_bad_opacity_def bad_opacity_def)

lemma triple_eqI: "fst x = a \<Longrightarrow> x = (a, fst (snd x), snd (snd x))"
  by (simp add: prod_eq_iff)

text \<open>
  Claim C8, as the code has it. When \<^verbatim>\<open>set_node_combo_opacity_mapping\<close> returns a
  result that is not \<^verbatim>\<open>None\<close>, the mappings of \<open>NODE_TRANSPARENCY\<close>,
  \<open>NODE_BORDER_TRANSPARENCY\<close> and \<open>NODE_LABEL_TRANSPARENCY\<close> have been written, in
  this order, and no other mapping. Once validation has passed (the column is there, the
  opacities are in range, and a default opacity, if one is given, is in range and has been
  set for the three properties): an exception of the first update, or of the second one,
  is the outcome of the call and no call follows it; when the first two updates return,
  whatever they return, the outcome of the call is the outcome of the third.
\<close>

theorem combo_opacity_sequence:
  "(set_node_combo_opacity_mapping cy table_column table_column_values opacities mapping_type
      default_opacity style_name network s = (Inr (Some r), s', calls) \<longrightarrow>
    mapping_writes calls =
      [''NODE_TRANSPARENCY'', ''NODE_BORDER_TRANSPARENCY'', ''NODE_LABEL_TRANSPARENCY'']) \<and>
   (table_column_exists cy table_column ''node'' network s = Inr True \<and>
    \<not> some_bad_opacity opacities \<and>
    priv_update_style_mapping cy str_int ''NODE_TRANSPARENCY'' table_column
      table_column_values opacities mapping_type style_name network all_mappings s
      = (Inl e1, s1, t1) \<longrightarrow>
    set_node_combo_opacity_mapping cy table_column table_column_values opacities mapping_type
      None style_name network s
      = (Inl e1, s1, TableColumnExists table_column ''node'' network # t1)) \<and>
   (table_column_exists cy table_column ''node'' network s = Inr True \<and>
    \<not> some_bad_opacity opacities \<and>
    priv_update_style_mapping cy str_int ''NODE_TRANSPARENCY'' table_column
      table_column_values opacities mapping_type style_name network all_mappings s
      = (Inr x1, s1, t1) \<and>
    priv_update_style_mapping cy str_int ''NODE_BORDER_TRANSPARENCY'' table_column
      table_column_values opacities mapping_type style_name network all_mappings s1
      = (Inl e2, s2, t2) \<longrightarrow>
    set_node_combo_opacity_mapping cy table_column table_column_values opacities mapping_type
      None style_name network s
      = (Inl e2, s2, TableColumnExists table_column ''node'' network # t1 @ t2)) \<and>
   (table_column_exists cy table_column ''node'' network s = Inr True \<and>
    \<not> some_bad_opacity opacities \<and>
    priv_update_style_mapping cy str_int ''NODE_TRANSPARENCY'' table_column
      table_column_values opacities mapping_type style_name network all_mappings s
      = (Inr x1, s1, t1) \<and>
    priv_update_style_mapping cy str_int ''NODE_BORDER_TRANSPARENCY'' table_column
      table_column_values opacities mapping_type style_name network all_mappings s1
      = (Inr x2, s2, t2) \<and>
    priv_update_style_mapping cy str_int ''NODE_LABEL_TRANSPARENCY'' table_column
      table_column_values opacities mapping_type style_name network all_mappings s2
      = (r3, s3, t3) \<longrightarrow>
    set_node_combo_opacity_mapping cy table_column table_column_values opacities mapping_type
      None style_name network s
      = (r3, s3, TableColumnExists table_column ''node'' network # t1 @ t2 @ t3)) \<and>
   (table_column_exists cy table_column ''node'' network s = Inr True \<and>
    \<not> some_bad_opacity opacities \<and>
    \<not> bad_opacity d \<and>
    set_default cy ''NODE_TRANSPARENCY'' (str_int d) style_name s = (Inr a1, q1, p1) \<and>
    set_default cy ''NODE_BORDER_TRANSPARENCY'' (str_int d) style_name q1 = (Inr a2, q2, p2) \<and>
    set_default cy ''NODE_LABEL_TRANSPARENCY'' (str_int d) style_name q2 = (Inr a3, q3, p3) \<and>
    priv_update_style_mapping cy str_int ''NODE_TRANSPARENCY'' table_column
      table_column_values opacities mapping_type style_name network all_mappings q3
      = (Inl e1, s1, t1) \<longrightarrow>
    set_node_combo_opacity_mapping cy table_column table_column_values opacities mapping_type
      (Some d) style_name network s
      = (Inl e1, s1, TableColumnExists table_column ''node'' network # p1 @ p2 @ p3 @ t1)) \<and>
   (table_column_exists cy table_column ''node'' network s = Inr True \<and>
    \<not> some_bad_opacity opacities \<and>
    \<not> bad_opacity d \<and>
    set_default cy ''NODE_TRANSPARENCY'' (str_int d) style_name s = (Inr a1, q1, p1) \<and>
    set_default cy ''NODE_BORDER_TRANSPARENCY'' (str_int d) style_name q1 = (Inr a2, q2, p2) \<and>
    set_default cy ''NODE_LABEL_TRANSPARENCY'' (str_int d) style_name q2 = (Inr a3, q3, p3) \<and>
    priv_update_style_mapping cy str_int ''NODE_TRANSPARENCY'' table_column
      table_column_values opacities mapping_type style_name network all_mappings q3
      = (Inr x1, s1, t1) \<and>
    priv_update_style_mapping cy str_int ''NODE_BORDER_TRANSPARENCY'' table_column
      table_column_values opacities mapping_type style_name network all_mappings s1
      = (Inl e2, s2, t2) \<longrightarrow>
    set_node_combo_opacity_mapping cy table_column table_column_values opacities mapping_type
      (Some d) style_name network s
      = (Inl e2, s2, TableColumnExists table_column ''node'' network # p1 @ p2 @ p3 @ t1 @ t2)) \<and>
   (table_column_exists cy table_column ''node'' network s = Inr True \<and>
    \<not> some_bad_opacity opacities \<and>
    \<not> bad_opacity d \<and>
    set_default cy ''NODE_TRANSPARENCY'' (str_int d) style_name s = (Inr a1, q1, p1) \<and>
    set_default cy ''NODE_BORDER_TRANSPARENCY'' (str_int d) style_name q1 = (Inr a2, q2, p2) \<and>
    set_default cy ''NODE_LABEL_TRANSPARENCY'' (str_int d) style_name q2 = (Inr a3, q3, p3) \<and>
    priv_update_style_mapping cy str_int ''NODE_TRANSPARENCY'' table_column
      table_column_values opacities mapping_type style_name network all_mappings q3
      = (Inr x1, s1, t1) \<and>
    priv_update_style_mapping cy str_int ''NODE_BORDER_TRANSPARENCY'' table_column
      table_column_values opacities mapping_type style_name network all_mappings s1
      = (Inr x2, s2, t2) \<and>
    priv_update_style_mapping cy str_int ''NODE_LABEL_TRANSPARENCY'' table_column
      table_column_values opacities mapping_type style_name network all_mappings s2
      = (r3, s3, t3) \<longrightarrow>
    set_node_combo_opacity_mapping cy table_column table_column_values opacities mapping_type
      (Some d) style_name network s
      = (r3, s3, TableColumnExists table_column ''node'' network # p1 @ p2 @ p3 @ t1 @ t2 @ t3))"
proof (intro conjI impI)
  assume "set_node_combo_opacity_mapping cy table_column table_column_values opacities
      mapping_type default_opacity style_name network s = (Inr (Some r), s', calls)"
  then show "mapping_writes calls =
      [''NODE_TRANSPARENCY'', ''NODE_BORDER_TRANSPARENCY'', ''NODE_LABEL_TRANSPARENCY'']"
    by (rule set_node_combo_opacity_mapping_calls)
qed (simp_all add: set_node_combo_opacity_mapping_def combo_updates_def and_then_def
      do_read_def ret_def split: sum.split)

theorem combo_opacity_sequence_witness:
  "mapping_writes (snd (snd (set_node_combo_opacity_mapping demo ''score'' (Some [1, 16])
          (Some [50, 100]) ''c'' (Some 225) ''default'' CurrentNetwork demo_start)))
     = [''NODE_TRANSPARENCY'', ''NODE_BORDER_TRANSPARENCY'', ''NODE_LABEL_TRANSPARENCY''] \<and>
   fst (set_node_combo_opacity_mapping demo ''score'' (Some [1, 16]) (Some [50, 100]) ''c''
          None ''default'' CurrentNetwork demo_refusing)
     = Inl (RequestException ''connection refused'') \<and>
   fst (set_node_combo_opacity_mapping demo ''score'' (Some [1, 16]) (Some [50, 100]) ''c''
          None ''default'' CurrentNetwork demo_one_write)
     = Inl (RequestException ''connection refused'') \<and>
   fst (set_node_combo_opacity_mapping demo ''score'' (Some [1, 16]) (Some [50, 100]) ''c''
          None ''default'' CurrentNetwork demo_start)
     = Inr (Some []) \<and>
   fst (set_node_combo_opacity_mapping demo ''score'' (Some [1, 16]) (Some [50, 100]) ''c''
          (Some 225) ''default'' CurrentNetwork \<lparr>style_mappings = [], budget = 3\<rparr>)
     = Inl (RequestException ''connection refused'') \<and>
   fst (set_node_combo_opacity_mapping demo ''score'' (Some [1, 16]) (Some [50, 100]) ''c''
          (Some 225) ''default'' CurrentNetwork \<lparr>style_mappings = [], budget = 4\<rparr>)
     = Inl (RequestException ''connection refused'') \<and>
   fst (set_node_combo_opacity_mapping demo ''score'' (Some [1, 16]) (Some [50, 100]) ''c''
          (Some 225) ''default'' CurrentNetwork demo_start)
     = Inr (Some [])"
proof -
  let ?U = "\<lambda>p. priv_update_style_mapping demo str_int p ''score'' (Some [1, 16])
                 (Some [50, 100]) ''c'' ''default'' CurrentNetwork all_mappings"
  let ?F = "\<lambda>d. set_node_combo_opacity_mapping demo ''score'' (Some [1, 16])
                 (Some [50, 100]) ''c'' d ''default'' CurrentNetwork"
  note v = demo_column_exists(1) demo_opacities_in_range
  have "fst (?F (Some 225) demo_start) = Inr (Some [])" by code_simp
  from combo_opacity_sequence [THEN conjunct1, THEN mp, OF triple_eqI [OF this]]
  have a: "mapping_writes (snd (snd (?F (Some 225) demo_start)))
     = [''NODE_TRANSPARENCY'', ''NODE_BORDER_TRANSPARENCY'', ''NODE_LABEL_TRANSPARENCY'']" .
  have "fst (?U ''NODE_TRANSPARENCY'' demo_refusing)
          = Inl (RequestException ''connection refused'')" by code_simp
  note b1 = triple_eqI [OF this]
  from combo_opacity_sequence [THEN conjunct2, THEN conjunct1, THEN mp,
      OF conjI [OF v(1) conjI [OF v(2) b1]]]
  have b: "fst (?F None demo_refusing) = Inl (RequestException ''connection refused'')"
    by simp
  have "fst (?U ''NODE_TRANSPARENCY'' demo_one_write) = Inr (Some [])" by code_simp
  note c1 = triple_eqI [OF this]
  have "fst (?U ''NODE_BORDER_TRANSPARENCY''
               (fst (snd (?U ''NODE_TRANSPARENCY'' demo_one_write))))
          = Inl (RequestException ''connection refused'')" by code_simp
  note c2 = triple_eqI [OF this]
  from combo_opacity_sequence [THEN conjunct2, THEN conjunct2, THEN conjunct1, THEN mp,
      OF conjI [OF v(1) conjI [OF v(2) conjI [OF c1 c2]]]]
  have c: "fst (?F None demo_one_write) = Inl (RequestException ''connection refused'')"
    by simp
  have "fst (?U ''NODE_TRANSPARENCY'' demo_start) = Inr (Some [])" by code_simp
  note d1 = triple_eqI [OF this]
  have "fst (?U ''NODE_BORDER_TRANSPARENCY'' (fst (snd (?U ''NODE_TRANSPARENCY'' demo_start))))
          = Inr (Some [])" by code_simp
  note d2 = triple_eqI [OF this]
  have d3: "fst (?U ''NODE_LABEL_TRANSPARENCY''
               (fst (snd (?U ''NODE_BORDER_TRANSPARENCY''
                  (fst (snd (?U ''NODE_TRANSPARENCY'' demo_start))))))) = Inr (Some [])"
    by code_simp
  from combo_opacity_sequence [THEN conjunct2, THEN conjunct2, THEN conjunct2,
      THEN conjunct1, THEN mp,
      OF conjI [OF v(1) conjI [OF v(2) conjI [OF d1 conjI [OF d2 triple_eqI [OF d3]]]]]]
  have d: "fst (?F None demo_start) = Inr (Some [])"
    by simp
  have nb: "\<not> bad_opacity 225" by (simp add: bad_opacity_def)
  have sd3: "set_default demo vp (str_int 225) ''default'' \<lparr>style_mappings = [], budget = 3\<rparr>
      = (Inr [], \<lparr>style_mappings = [], budget = 2\<rparr>,
         [SetVisualPropertyDefault vp (str_int 225) ''default''])" for vp
    by (simp add: set_default_def do_write_def demo_def demo_write_def)
  have sd2: "set_default demo vp (str_int 225) ''default'' \<lparr>style_mappings = [], budget = 2\<rparr>
      = (Inr [], \<lparr>style_mappings = [], budget = 1\<rparr>,
         [SetVisualPropertyDefault vp (str_int 225) ''default''])" for vp
    by (simp add: set_default_def do_write_def demo_def demo_write_def)
  have sd1: "set_default demo vp (str_int 225) ''default'' \<lparr>style_mappings = [], budget = 1\<rparr>
      = (Inr [], demo_refusing,
         [SetVisualPropertyDefault vp (str_int 225) ''default''])" for vp
    by (simp add: set_default_def do_write_def demo_def demo_write_def demo_refusing_def)
  have sd4: "set_default demo vp (str_int 225) ''default'' \<lparr>style_mappings = [], budget = 4\<rparr>
      = (Inr [], \<lparr>style_mappings = [], budget = 3\<rparr>,
         [SetVisualPropertyDefault vp (str_int 225) ''default''])" for vp
    by (simp add: set_default_def do_write_def demo_def demo_write_def)
  have sd2': "set_default demo vp (str_int 225) ''default'' \<lparr>style_mappings = [], budget = 2\<rparr>
      = (Inr [], demo_one_write,
         [SetVisualPropertyDefault vp (str_int 225) ''default''])" for vp
    by (simp add: set_default_def do_write_def demo_def demo_write_def demo_one_write_def)
  have sd10: "set_default demo vp (str_int 225) ''default'' demo_start
      = (Inr [], \<lparr>style_mappings = [], budget = 9\<rparr>,
         [SetVisualPropertyDefault vp (str_int 225) ''default''])" for vp
    by (simp add: set_default_def do_write_def demo_def demo_write_def demo_start_def)
  have sd9: "set_default demo vp (str_int 225) ''default'' \<lparr>style_mappings = [], budget = 9\<rparr>
      = (Inr [], \<lparr>style_mappings = [], budget = 8\<rparr>,
         [SetVisualPropertyDefault vp (str_int 225) ''default''])" for vp
    by (simp add: set_default_def do_write_def demo_def demo_write_def)
  have sd8: "set_default demo vp (str_int 225) ''default'' \<lparr>style_mappings = [], budget = 8\<rparr>
      = (Inr [], \<lparr>style_mappings = [], budget = 7\<rparr>,
         [SetVisualPropertyDefault vp (str_int 225) ''default''])" for vp
    by (simp add: set_default_def do_write_def demo_def demo_write_def)
  from combo_opacity_sequence [THEN conjunct2, THEN conjunct2, THEN conjunct2,
      THEN conjunct2, THEN conjunct1, THEN mp,
      OF conjI [OF demo_column_exists(1) conjI [OF v(2) conjI [OF nb
           conjI [OF sd3 conjI [OF sd2 conjI [OF sd1 b1]]]]]]]
  have e: "fst (?F (Some 225) \<lparr>style_mappings = [], budget = 3\<rparr>)
             = Inl (RequestException ''connection refused'')"
    by simp
  from combo_opacity_sequence [THEN conjunct2, THEN conjunct2, THEN conjunct2,
      THEN conjunct2, THEN conjunct2, THEN conjunct1, THEN mp,
      OF conjI [OF demo_column_exists(1) conjI [OF v(2) conjI [OF nb
           conjI [OF sd4 conjI [OF sd3 conjI [OF sd2' conjI [OF c1 c2]]]]]]]]
  have f: "fst (?F (Some 225) \<lparr>style_mappings = [], budget = 4\<rparr>)
             = Inl (RequestException ''connection refused'')"
    by simp
  let ?s7 = "\<lparr>style_mappings = [], budget = 7\<rparr>"
  have "fst (?U ''NODE_TRANSPARENCY'' ?s7) = Inr (Some [])" by code_simp
  note g1 = triple_eqI [OF this]
  have "fst (?U ''NODE_BORDER_TRANSPARENCY'' (fst (snd (?U ''NODE_TRANSPARENCY'' ?s7))))
          = Inr (Some [])" by code_simp
  note g2 = triple_eqI [OF this]
  have g3: "fst (?U ''NODE_LABEL_TRANSPARENCY''
               (fst (snd (?U ''NODE_BORDER_TRANSPARENCY''
                  (fst (snd (?U ''NODE_TRANSPARENCY'' ?s7))))))) = Inr (Some [])"
    by code_simp
  from combo_opacity_sequence [THEN conjunct2, THEN conjunct2, THEN conjunct2,
      THEN conjunct2, THEN conjunct2, THEN conjunct2, THEN mp,
      OF conjI [OF demo_column_exists(1) conjI [OF v(2) conjI [OF nb
           conjI [OF sd10 conjI [OF sd9 conjI [OF sd8
             conjI [OF g1 conjI [OF g2 triple_eqI [OF g3]]]]]]]]]]
  have g: "fst (?F (Some 225) demo_start) = Inr (Some [])"
    by simp
  from a b c d e f g show ?thesis by (intro conjI)
qed

text \<open>
  Claim C8 as it is stated fails: when the remote application refuses the first write, the
  call raises that error; its six calls end with the write of \<open>NODE_TRANSPARENCY\<close>, and
  the border and the label mapping are not attempted.
\<close>

theorem refused_write_ends_combo_call:
  "fst (set_node_combo_opacity_mapping demo ''score'' (Some [1, 16]) (Some [50, 100]) ''c''
          None ''default'' CurrentNetwork demo_refusing)
     = Inl (RequestException ''connection refused'') \<and>
   mapping_writes (snd (snd (set_node_combo_opacity_mapping demo ''score'' (Some [1, 16])
          (Some [50, 100]) ''c'' None ''default'' CurrentNetwork demo_refusing)))
     = [''NODE_TRANSPARENCY''] \<and>
   length (snd (snd (set_node_combo_opacity_mapping demo ''score'' (Some [1, 16])
          (Some [50, 100]) ''c'' None ''default'' CurrentNetwork demo_refusing))) = 6"
  by code_simp

text \<open>
  With at least one column value and two extra property values,
  \<^verbatim>\<open>map_visual_property\<close> returns one waypoint per column value: the first
  \<open>lesser\<close> and the last \<open>greater\<close> are the two extra values, every other slot is the
  interior property value of its waypoint.
\<close>

lemma continuous_two_extra_waypoints:
  assumes "mapping_type = ''c'' \<or> mapping_type = ''continuous''"
    and "length visual_prop_values = length table_column_values + 2"
    and "table_column_values \<noteq> []"
    and "get_network_suid cy network s = Inr suid"
    and "get_visual_property_names cy s = Inr names"
    and "visual_prop_name visual_prop \<in> set names"
    and "cyrest_get_columns cy (columns_url suid (table_of (visual_prop_name visual_prop))) s
           = Inr cols"
    and "find (\<lambda>col. col_name col = table_column) cols = Some col"
  shows "\<exists>doc pts.
           fst (map_visual_property cy visual_prop table_column mapping_type
                  (Some table_column_values) (Some visual_prop_values) network s) = Inr doc \<and>
           points_cargo doc = Some pts \<and>
           length pts = length table_column_values \<and>
           (\<forall>i < length table_column_values.
              point_value (pts ! i) = table_column_values ! i \<and>
              equal (pts ! i) = visual_prop_values ! (i + 1) \<and>
              lesser (pts ! i) =
                (if i = 0 then visual_prop_values ! 0 else visual_prop_values ! (i + 1)) \<and>
              greater (pts ! i) =
                (if i = length table_column_values - 1 then last visual_prop_values
                 else visual_prop_values ! (i + 1)))"
proof -
  from continuous_points_two_extra [OF assms(2,3)] obtain pts where
    "continuous_points table_column_values visual_prop_values = Inr pts"
    and "length pts = length table_column_values"
    and "\<forall>i < length table_column_values.
              point_value (pts ! i) = table_column_values ! i \<and>
              equal (pts ! i) = visual_prop_values ! (i + 1) \<and>
              lesser (pts ! i) =
                (if i = 0 then visual_prop_values ! 0 else visual_prop_values ! (i + 1)) \<and>
              greater (pts ! i) =
                (if i = length table_column_values - 1 then last visual_prop_values
                 else visual_prop_values ! (i + 1))"
    by blast
  then show ?thesis
    by (simp add: map_visual_property_reads [OF assms(4-8)]
        mapping_type_name_continuous [OF assms(1)] construct_map_def)
qed

end
